theory Spec2Isabelle
  imports Main "HOL-Library.Word"
begin

unbundle bit_operations_syntax

section \<open>PEP 425 compatibility tags: \<^verbatim>\<open>src/pip/_internal/pep425tags.py\<close>\<close>

text \<open>
  A shallow embedding of pip's tag computation. Every query of the running
  interpreter and of the operating system is a field of an explicit, read-only
  environment record; the generators imported from \<^verbatim>\<open>packaging.tags\<close>
  (\<^verbatim>\<open>mac_platforms\<close>, \<^verbatim>\<open>cpython_tags\<close>, \<^verbatim>\<open>compatible_tags\<close>, \<^verbatim>\<open>Tag\<close>) and the glibc
  check of \<^verbatim>\<open>pip._internal.utils.glibc\<close> are fields of it as well, since their code
  is not part of this module. A Python exception is a value \<open>Inl e\<close>. Functions of
  the module whose name starts with an underscore are written without it
  (\<^verbatim>\<open>_get_custom_platforms\<close> is \<open>get_custom_platforms\<close>).
\<close>

subsection \<open>Python strings\<close>

text \<open>
  Strings are lists of 8-bit characters: the model covers ASCII text, which is what
  platform, version and ABI tokens are made of.
\<close>

datatype error = IndexError | ValueError | AttributeError

text \<open>\<^verbatim>\<open>s.replace(c, d)\<close> for one-character \<open>c\<close> and \<open>d\<close>.\<close>

definition py_replace :: "char \<Rightarrow> char \<Rightarrow> string \<Rightarrow> string" where
  "py_replace c d s = map (\<lambda>x. if x = c then d else x) s"

text \<open>\<^verbatim>\<open>s.split(sep)\<close> for a one-character separator: never an empty list.\<close>

fun py_split :: "char \<Rightarrow> string \<Rightarrow> string list" where
  "py_split sep [] = [[]]"
| "py_split sep (c # cs) =
     (if c = sep then [] # py_split sep cs
      else (case py_split sep cs of
              [] \<Rightarrow> [[c]]
            | w # ws \<Rightarrow> (c # w) # ws))"

text \<open>\<^verbatim>\<open>s.partition(sep)\<close>: the text before the first separator, the separator,
  the text after it; \<open>(s, '''', '''')\<close> when there is no separator.\<close>

definition py_partition :: "char \<Rightarrow> string \<Rightarrow> string \<times> string \<times> string" where
  "py_partition sep s =
     (case dropWhile (\<lambda>c. c \<noteq> sep) s of
        [] \<Rightarrow> (s, [], [])
      | c # suffix \<Rightarrow> (takeWhile (\<lambda>c. c \<noteq> sep) s, [sep], suffix))"

definition startswith :: "string \<Rightarrow> string \<Rightarrow> bool" where
  "startswith s p = (take (length p) s = p)"

text \<open>Python's slice \<^verbatim>\<open>xs[a:b]\<close> for \<open>0 \<le> a \<le> b\<close>: shorter when the list is.\<close>

definition py_slice :: "nat \<Rightarrow> nat \<Rightarrow> 'a list \<Rightarrow> 'a list" where
  "py_slice a b xs = take (b - a) (drop a xs)"

definition is_digit :: "char \<Rightarrow> bool" where
  "is_digit c = (48 \<le> (of_char c :: nat) \<and> (of_char c :: nat) \<le> 57)"

definition digit_val :: "char \<Rightarrow> nat" where
  "digit_val c = (of_char c :: nat) - 48"

text \<open>The ASCII characters \<^verbatim>\<open>int()\<close> skips as white space around a literal: tab to
  carriage return, and space.\<close>

definition is_space :: "char \<Rightarrow> bool" where
  "is_space c = (let n = (of_char c :: nat) in (9 \<le> n \<and> n \<le> 13) \<or> n = 32)"

text \<open>The string without the white space at its two ends.\<close>

definition py_strip :: "string \<Rightarrow> string" where
  "py_strip s = rev (dropWhile is_space (rev (dropWhile is_space s)))"

text \<open>
  The digits of a decimal literal, Python 3 rule: one or more digits, with single
  underscores allowed between two digits. \<open>acc\<close> is the value read so far and
  \<open>after_digit\<close> tells whether the previous character was a digit.
\<close>

fun parse_digits :: "nat \<Rightarrow> bool \<Rightarrow> string \<Rightarrow> nat option" where
  "parse_digits acc after_digit [] = (if after_digit then Some acc else None)"
| "parse_digits acc after_digit (c # cs) =
     (if is_digit c then parse_digits (10 * acc + digit_val c) True cs
      else if c = CHR ''_'' \<and> after_digit \<and> cs \<noteq> [] \<and> is_digit (hd cs)
           then parse_digits acc False cs
      else None)"

text \<open>\<^verbatim>\<open>int(s)\<close> on a string: surrounding white space stripped, an optional sign,
  a decimal literal; \<^verbatim>\<open>ValueError\<close> on anything else.\<close>

definition py_int :: "string \<Rightarrow> error + int" where
  "py_int s =
     (case py_strip s of
        [] \<Rightarrow> Inl ValueError
      | c # cs \<Rightarrow>
          (if c = CHR ''-'' then
             (case parse_digits 0 False cs of None \<Rightarrow> Inl ValueError | Some n \<Rightarrow> Inr (- int n))
           else if c = CHR ''+'' then
             (case parse_digits 0 False cs of None \<Rightarrow> Inl ValueError | Some n \<Rightarrow> Inr (int n))
           else
             (case parse_digits 0 False (c # cs) of None \<Rightarrow> Inl ValueError | Some n \<Rightarrow> Inr (int n))))"

text \<open>\<^verbatim>\<open>str(n)\<close> for a non-negative integer.\<close>

function py_str :: "nat \<Rightarrow> string" where
  "py_str n =
     (if n < 10 then [char_of (48 + n)]
      else py_str (n div 10) @ [char_of (48 + n mod 10)])"
  by pat_completeness auto
termination
  by (relation "measure id") auto

declare py_str.simps [simp del]

subsection \<open>The environment\<close>

text \<open>A value of a build-time configuration variable: \<^verbatim>\<open>sysconfig\<close> holds strings
  and integers.\<close>

datatype config_value = CStr string | CInt int

text \<open>The optional \<^verbatim>\<open>_manylinux\<close> marker module. A field is \<open>None\<close> when the module
  lacks the attribute (\<^verbatim>\<open>AttributeError\<close>) and \<open>Some b\<close> when \<^verbatim>\<open>bool(attribute)\<close> is
  \<open>b\<close>.\<close>

record manylinux_module =
  manylinux1_compatible :: "bool option"
  manylinux2010_compatible :: "bool option"
  manylinux2014_compatible :: "bool option"

type_synonym byte = "8 word"

text \<open>
  \<^item> \<open>sys_platform\<close>, \<open>sys_maxsize\<close>: \<^verbatim>\<open>sys.platform\<close>, \<^verbatim>\<open>sys.maxsize\<close>;
  \<^item> \<open>sys_version_info\<close>: the first two components of \<^verbatim>\<open>sys.version_info\<close>;
  \<^item> \<open>sys_pypy_version_info\<close>: major and minor of \<^verbatim>\<open>sys.pypy_version_info\<close>, \<open>None\<close>
    when the attribute does not exist;
  \<^item> \<open>sys_maxunicode\<close>: \<^verbatim>\<open>sys.maxunicode\<close>, \<open>None\<close> when \<^verbatim>\<open>hasattr\<close> is false;
  \<^item> \<open>sys_has_gettotalrefcount\<close>: \<^verbatim>\<open>hasattr(sys, 'gettotalrefcount')\<close>;
  \<^item> \<open>sys_executable_image\<close>: the bytes of the file \<^verbatim>\<open>sys.executable\<close>, \<open>None\<close> when
    opening or reading it raises \<^verbatim>\<open>IOError\<close>, \<^verbatim>\<open>OSError\<close> or \<^verbatim>\<open>TypeError\<close>;
  \<^item> \<open>platform_mac_ver\<close>: release and machine of \<^verbatim>\<open>platform.mac_ver()\<close>;
  \<^item> \<open>distutils_get_platform\<close>: \<^verbatim>\<open>distutils.util.get_platform()\<close>;
  \<^item> \<open>sysconfig_get_config_var\<close>: \<^verbatim>\<open>sysconfig.get_config_var\<close>;
  \<^item> \<open>manylinux\<close>: the \<^verbatim>\<open>_manylinux\<close> module, \<open>None\<close> when the import fails;
  \<^item> \<open>glibc_have_compatible_glibc\<close>: \<^verbatim>\<open>pip._internal.utils.glibc.have_compatible_glibc\<close>;
  \<^item> \<open>tags_*\<close>: the names imported from \<^verbatim>\<open>pip._vendor.packaging.tags\<close>. A Python
    version tuple is an \<open>int list\<close>, and an argument left at \<^verbatim>\<open>None\<close> is \<open>None\<close>.
\<close>

record 't env =
  sys_platform :: string
  sys_maxsize :: int
  sys_version_info :: "nat \<times> nat"
  sys_pypy_version_info :: "(nat \<times> nat) option"
  sys_maxunicode :: "int option"
  sys_has_gettotalrefcount :: bool
  sys_executable_image :: "byte list option"
  platform_mac_ver :: "string \<times> string"
  distutils_get_platform :: string
  sysconfig_get_config_var :: "string \<Rightarrow> config_value option"
  manylinux :: "manylinux_module option"
  glibc_have_compatible_glibc :: "nat \<Rightarrow> nat \<Rightarrow> bool"
  tags_interpreter_name :: string
  tags_interpreter_version :: string
  tags_mac_platforms :: "int \<times> int \<Rightarrow> string \<Rightarrow> string list"
  tags_cpython_tags :: "int list option \<Rightarrow> string list option \<Rightarrow> string list option \<Rightarrow> 't list"
  tags_compatible_tags :: "int list option \<Rightarrow> string \<Rightarrow> string list option \<Rightarrow> 't list"
  tags_Tag :: "string \<Rightarrow> string \<Rightarrow> string \<Rightarrow> 't"

text \<open>
  A call of the glibc check is an effect the claims speak about, so the functions
  that can reach it return, next to their value, the list of the checks they made,
  in call order: \<open>GlibcCheck major minor\<close> is one call of
  \<^verbatim>\<open>have_compatible_glibc(major, minor)\<close>.
\<close>

datatype probe = GlibcCheck nat nat

type_synonym 'a traced = "error + ('a \<times> probe list)"

subsection \<open>Platform identity\<close>

definition is_running_32bit :: "'t env \<Rightarrow> bool" where
  "is_running_32bit env = (sys_maxsize env = 2147483647)"

text \<open>\<^verbatim>\<open>split_ver[1]\<close> raises \<^verbatim>\<open>IndexError\<close> when the release has no dot.\<close>

definition get_platform :: "'t env \<Rightarrow> error + string" where
  "get_platform env =
     (if sys_platform env = ''darwin'' then
        (let (release, machine) = platform_mac_ver env;
             split_ver = py_split CHR ''.'' release;
             machine = (if machine = ''x86_64'' \<and> is_running_32bit env then ''i386''
                        else if machine = ''ppc64'' \<and> is_running_32bit env then ''ppc''
                        else machine)
         in (case split_ver of
               v0 # v1 # _ \<Rightarrow> Inr (''macosx_'' @ v0 @ ''_'' @ v1 @ ''_'' @ machine)
             | _ \<Rightarrow> Inl IndexError))
      else
        (let result = py_replace CHR ''-'' CHR ''_''
                        (py_replace CHR ''.'' CHR ''_'' (distutils_get_platform env))
         in Inr (if result = ''linux_x86_64'' \<and> is_running_32bit env then ''linux_i686''
                 else result)))"

subsection \<open>Hard-float ARM detection\<close>

definition is_linux_armhf :: "'t env \<Rightarrow> error + bool" where
  "is_linux_armhf env =
     (case get_platform env of
        Inl e \<Rightarrow> Inl e
      | Inr p \<Rightarrow>
          (if p \<noteq> ''linux_armv7l'' then Inr False
           else (case sys_executable_image env of
                   None \<Rightarrow> Inr False
                 | Some contents \<Rightarrow>
                     (let elf_header = take 40 contents in
                      if length elf_header < 40 then Inr False
                      else Inr (py_slice 0 4 elf_header = [0x7f, 0x45, 0x4c, 0x46]
                              \<and> py_slice 4 5 elf_header = [1]
                              \<and> py_slice 5 6 elf_header = [1]
                              \<and> py_slice 18 20 elf_header = [0x28, 0]
                              \<and> py_slice 39 40 elf_header = [5]
                              \<and> (py_slice 37 38 elf_header ! 0) AND 4 = 4)))))"

subsection \<open>Environment compatibility predicates\<close>

text \<open>The \<^verbatim>\<open>try\<close> block: \<open>Some b\<close> when the module imports and has the attribute,
  \<open>None\<close> on \<^verbatim>\<open>ImportError\<close> or \<^verbatim>\<open>AttributeError\<close>.\<close>

definition manylinux_marker :: "'t env \<Rightarrow> (manylinux_module \<Rightarrow> bool option) \<Rightarrow> bool option" where
  "manylinux_marker env attr = (case manylinux env of None \<Rightarrow> None | Some m \<Rightarrow> attr m)"

definition have_compatible_glibc :: "'t env \<Rightarrow> nat \<Rightarrow> nat \<Rightarrow> bool traced" where
  "have_compatible_glibc env major minor =
     Inr (glibc_have_compatible_glibc env major minor, [GlibcCheck major minor])"

definition is_manylinux1_compatible :: "'t env \<Rightarrow> bool traced" where
  "is_manylinux1_compatible env =
     (case get_platform env of
        Inl e \<Rightarrow> Inl e
      | Inr p \<Rightarrow>
          (if p \<notin> {''linux_x86_64'', ''linux_i686''} then Inr (False, [])
           else (case manylinux_marker env manylinux1_compatible of
                   Some b \<Rightarrow> Inr (b, [])
                 | None \<Rightarrow> have_compatible_glibc env 2 5)))"

definition is_manylinux2010_compatible :: "'t env \<Rightarrow> bool traced" where
  "is_manylinux2010_compatible env =
     (case get_platform env of
        Inl e \<Rightarrow> Inl e
      | Inr p \<Rightarrow>
          (if p \<notin> {''linux_x86_64'', ''linux_i686''} then Inr (False, [])
           else (case manylinux_marker env manylinux2010_compatible of
                   Some b \<Rightarrow> Inr (b, [])
                 | None \<Rightarrow> have_compatible_glibc env 2 12)))"

definition is_manylinux2014_compatible :: "'t env \<Rightarrow> bool traced" where
  "is_manylinux2014_compatible env =
     (case get_platform env of
        Inl e \<Rightarrow> Inl e
      | Inr p \<Rightarrow>
          (if p \<notin> {''linux_x86_64'', ''linux_i686'', ''linux_aarch64'', ''linux_armv7l'',
                    ''linux_ppc64'', ''linux_ppc64le'', ''linux_s390x''}
           then Inr (False, [])
           else (case (if p = ''linux_armv7l'' then is_linux_armhf env else Inr True) of
                   Inl e \<Rightarrow> Inl e
                 | Inr hard_float \<Rightarrow>
                     (if p = ''linux_armv7l'' \<and> \<not> hard_float then Inr (False, [])
                      else (case manylinux_marker env manylinux2014_compatible of
                              Some b \<Rightarrow> Inr (b, [])
                            | None \<Rightarrow> have_compatible_glibc env 2 17)))))"

subsection \<open>ABI tag\<close>

definition get_config_var :: "'t env \<Rightarrow> string \<Rightarrow> config_value option" where
  "get_config_var env var = sysconfig_get_config_var env var"

text \<open>Python's truth value of an optional configuration value, and of an optional
  string: \<^verbatim>\<open>None\<close>, the empty string and \<open>0\<close> are false.\<close>

fun truthy :: "config_value option \<Rightarrow> bool" where
  "truthy None = False"
| "truthy (Some (CStr s)) = (s \<noteq> [])"
| "truthy (Some (CInt n)) = (n \<noteq> 0)"

fun str_truthy :: "string option \<Rightarrow> bool" where
  "str_truthy None = False"
| "str_truthy (Some s) = (s \<noteq> [])"

text \<open>
  \<^verbatim>\<open>get_flag(var, fallback, expected, warn)\<close>. The fallback is a closure without
  effects, passed here as its value; \<open>warn\<close> only selects a log line and is left
  out. \<open>expected\<close> is an integer (\<^verbatim>\<open>True\<close> is \<open>1\<close>): a string value never equals it.
\<close>

definition get_flag :: "'t env \<Rightarrow> string \<Rightarrow> bool \<Rightarrow> int \<Rightarrow> bool" where
  "get_flag env var fallback expected =
     (case get_config_var env var of
        None \<Rightarrow> fallback
      | Some val \<Rightarrow> val = CInt expected)"

text \<open>\<^verbatim>\<open>sys.version_info < (a, b)\<close>: the five-component tuple is smaller than the
  pair exactly when its first two components are, lexicographically.\<close>

definition version_lt :: "nat \<times> nat \<Rightarrow> nat \<times> nat \<Rightarrow> bool" where
  "version_lt v w = (fst v < fst w \<or> (fst v = fst w \<and> snd v < snd w))"

text \<open>A true \<^verbatim>\<open>SOABI\<close> that is not a string has no \<^verbatim>\<open>startswith\<close>:
  \<^verbatim>\<open>AttributeError\<close>.\<close>

definition get_abi_tag :: "'t env \<Rightarrow> error + string option" where
  "get_abi_tag env =
     (let soabi = get_config_var env ''SOABI'';
          impl = tags_interpreter_name env
      in if \<not> truthy soabi \<and> impl \<in> {''cp'', ''pp''} \<and> sys_maxunicode env \<noteq> None then
           (let is_cpython = (impl = ''cp'');
                d = (if get_flag env ''Py_DEBUG'' (sys_has_gettotalrefcount env) 1
                     then ''d'' else []);
                m = (if version_lt (sys_version_info env) (3, 8)
                        \<and> get_flag env ''WITH_PYMALLOC'' is_cpython 1
                     then ''m'' else []);
                u = (if version_lt (sys_version_info env) (3, 3)
                        \<and> get_flag env ''Py_UNICODE_SIZE'' (sys_maxunicode env = Some 0x10ffff) 4
                     then ''u'' else [])
            in Inr (Some (impl @ tags_interpreter_version env @ d @ m @ u)))
         else if truthy soabi then
           (case soabi of
              Some (CStr s) \<Rightarrow>
                (if startswith s ''cpython-'' then
                   (case py_split CHR ''-'' s of
                      _ # field # _ \<Rightarrow> Inr (Some (''cp'' @ field))
                    | _ \<Rightarrow> Inl IndexError)
                 else Inr (Some (py_replace CHR ''-'' CHR ''_'' (py_replace CHR ''.'' CHR ''_'' s))))
            | _ \<Rightarrow> Inl AttributeError)
         else Inr None)"

subsection \<open>Interpreter versions\<close>

definition get_impl_version_info :: "'t env \<Rightarrow> error + nat list" where
  "get_impl_version_info env =
     (if tags_interpreter_name env = ''pp'' then
        (case sys_pypy_version_info env of
           None \<Rightarrow> Inl AttributeError
         | Some (pypy_major, pypy_minor) \<Rightarrow>
             Inr [fst (sys_version_info env), pypy_major, pypy_minor])
      else Inr [fst (sys_version_info env), snd (sys_version_info env)])"

definition get_all_minor_versions_as_strings :: "nat list \<Rightarrow> error + string list" where
  "get_all_minor_versions_as_strings version_info =
     (case version_info of
        [] \<Rightarrow> Inl IndexError
      | _ # _ \<Rightarrow>
          (let major = butlast version_info
           in Inr (map (\<lambda>minor. concat (map py_str (major @ [minor])))
                       (rev [0 ..< Suc (last version_info)]))))"

definition get_python_version :: "string \<Rightarrow> error + int list" where
  "get_python_version version =
     (if length version > 1 then
        (case py_int [version ! 0] of
           Inl e \<Rightarrow> Inl e
         | Inr major \<Rightarrow>
             (case py_int (drop 1 version) of
                Inl e \<Rightarrow> Inl e
              | Inr minor \<Rightarrow> Inr [major, minor]))
      else
        (case version of
           [] \<Rightarrow> Inl IndexError
         | c # _ \<Rightarrow> (case py_int [c] of Inl e \<Rightarrow> Inl e | Inr major \<Rightarrow> Inr [major])))"

definition get_custom_interpreter :: "'t env \<Rightarrow> string option \<Rightarrow> string option \<Rightarrow> string" where
  "get_custom_interpreter env implementation version =
     (case implementation of None \<Rightarrow> tags_interpreter_name env | Some i \<Rightarrow> i)
     @ (case version of None \<Rightarrow> tags_interpreter_version env | Some v \<Rightarrow> v)"

subsection \<open>Compatibility expansion\<close>

text \<open>
  \<^verbatim>\<open>_osx_arch_pat.match(arch)\<close> for the pattern \<^verbatim>\<open>(.+)_(\d+)_(\d+)_(.+)\<close>, anchored at
  the start only. \<open>match_tail\<close> matches \<^verbatim>\<open>_(\d+)_(\d+)_(.+)\<close> at the start of its
  argument: each \<^verbatim>\<open>\d+\<close> must be followed by an underscore, so only the whole run of
  digits can match, and the last group takes every character up to a newline.
  The first group is greedy: \<open>match_from\<close> tries its longest end first, within the
  first line, and shortens it by one character at a time.
\<close>

definition not_newline :: "char \<Rightarrow> bool" where
  "not_newline c = (c \<noteq> CHR 0x0A)"

definition match_tail :: "string \<Rightarrow> (string \<times> string \<times> string) option" where
  "match_tail r =
     (case r of
        [] \<Rightarrow> None
      | c1 # r1 \<Rightarrow>
          (if c1 \<noteq> CHR ''_'' \<or> takeWhile is_digit r1 = [] then None
           else (case dropWhile is_digit r1 of
                   [] \<Rightarrow> None
                 | c2 # r2 \<Rightarrow>
                     (if c2 \<noteq> CHR ''_'' \<or> takeWhile is_digit r2 = [] then None
                      else (case dropWhile is_digit r2 of
                              [] \<Rightarrow> None
                            | c3 # r3 \<Rightarrow>
                                (if c3 \<noteq> CHR ''_'' \<or> takeWhile not_newline r3 = [] then None
                                 else Some (takeWhile is_digit r1, takeWhile is_digit r2,
                                            takeWhile not_newline r3)))))))"

fun match_from :: "nat \<Rightarrow> string \<Rightarrow> (string \<times> string \<times> string \<times> string) option" where
  "match_from 0 s = None"
| "match_from (Suc i) s =
     (case match_tail (drop (Suc i) s) of
        Some (major, minor, actual_arch) \<Rightarrow> Some (take (Suc i) s, major, minor, actual_arch)
      | None \<Rightarrow> match_from i s)"

definition osx_arch_pat_match :: "string \<Rightarrow> (string \<times> string \<times> string \<times> string) option" where
  "osx_arch_pat_match s = match_from (length (takeWhile not_newline s)) s"

definition mac_platforms :: "'t env \<Rightarrow> string \<Rightarrow> error + string list" where
  "mac_platforms env arch =
     (case osx_arch_pat_match arch of
        Some (name, major, minor, actual_arch) \<Rightarrow>
          (case py_int major of
             Inl e \<Rightarrow> Inl e
           | Inr ma \<Rightarrow>
               (case py_int minor of
                  Inl e \<Rightarrow> Inl e
                | Inr mi \<Rightarrow>
                    Inr (map (\<lambda>arch. name @ ''_'' @ drop (length ''macosx_'') arch)
                             (tags_mac_platforms env (ma, mi) actual_arch))))
      | None \<Rightarrow> Inr [arch])"

definition custom_manylinux_platforms :: "string \<Rightarrow> string list" where
  "custom_manylinux_platforms arch =
     (let (arch_prefix, arch_sep, arch_suffix) = py_partition CHR ''_'' arch
      in if arch_prefix = ''manylinux2014'' then
           (if arch_suffix \<in> {''i686'', ''x86_64''}
            then [arch, ''manylinux2010'' @ arch_sep @ arch_suffix,
                  ''manylinux1'' @ arch_sep @ arch_suffix]
            else [arch])
         else if arch_prefix = ''manylinux2010'' then
           [arch, ''manylinux1'' @ arch_sep @ arch_suffix]
         else [arch])"

definition get_custom_platforms :: "'t env \<Rightarrow> string \<Rightarrow> string option \<Rightarrow> string list traced" where
  "get_custom_platforms env arch platform =
     (let (arch_prefix, arch_sep, arch_suffix) = py_partition CHR ''_'' arch
      in if startswith arch ''macosx'' then
           (case mac_platforms env arch of Inl e \<Rightarrow> Inl e | Inr arches \<Rightarrow> Inr (arches, []))
         else if arch_prefix \<in> set [''manylinux2014'', ''manylinux2010''] then
           Inr (custom_manylinux_platforms arch, [])
         else if platform = None then
           (case is_manylinux2014_compatible env of
              Inl e \<Rightarrow> Inl e
            | Inr (c2014, log2014) \<Rightarrow>
           (case is_manylinux2010_compatible env of
              Inl e \<Rightarrow> Inl e
            | Inr (c2010, log2010) \<Rightarrow>
           (case is_manylinux1_compatible env of
              Inl e \<Rightarrow> Inl e
            | Inr (c1, log1) \<Rightarrow>
                Inr ((if c2014 then [''manylinux2014'' @ arch_sep @ arch_suffix] else [])
                     @ (if c2010 then [''manylinux2010'' @ arch_sep @ arch_suffix] else [])
                     @ (if c1 then [''manylinux1'' @ arch_sep @ arch_suffix] else [])
                     @ [arch],
                     log2014 @ log2010 @ log1))))
         else Inr ([arch], []))"

subsection \<open>Tag assembly\<close>

definition generic_tags ::
  "'t env \<Rightarrow> string option \<Rightarrow> string option \<Rightarrow> string option \<Rightarrow> string option
     \<Rightarrow> (string \<times> string \<times> string) list traced" where
  "generic_tags env version platform impl abi =
     (case (case version of
              None \<Rightarrow> (case get_impl_version_info env of
                         Inl e \<Rightarrow> Inl e
                       | Inr version_info \<Rightarrow> get_all_minor_versions_as_strings version_info)
            | Some v \<Rightarrow> Inr [v]) of
        Inl e \<Rightarrow> Inl e
      | Inr [] \<Rightarrow> Inl IndexError
      | Inr (current_version # _) \<Rightarrow>
          (let impl = (case impl of
                         None \<Rightarrow> tags_interpreter_name env
                       | Some i \<Rightarrow> if i \<noteq> [] then i else tags_interpreter_name env)
           in case (if str_truthy abi then Inr abi else get_abi_tag env) of
                Inl e \<Rightarrow> Inl e
              | Inr abi \<Rightarrow>
                  (let abis = (case abi of
                                 None \<Rightarrow> []
                               | Some a \<Rightarrow> if a \<noteq> [] then [a] else []) @ [''none'']
                   in case (case platform of
                              None \<Rightarrow> get_platform env
                            | Some p \<Rightarrow> if p \<noteq> [] then Inr p else get_platform env) of
                        Inl e \<Rightarrow> Inl e
                      | Inr arch \<Rightarrow>
                          (case get_custom_platforms env arch platform of
                             Inl e \<Rightarrow> Inl e
                           | Inr (arches, log) \<Rightarrow>
                               Inr (concat (map (\<lambda>abi. map (\<lambda>arch. (impl @ current_version, abi, arch))
                                                          arches) abis),
                                    log)))))"

text \<open>The generator \<^verbatim>\<open>_stable_unique_tags\<close>: the loop with its set \<open>observed\<close>.\<close>

fun stable_unique_loop :: "'t set \<Rightarrow> 't list \<Rightarrow> 't list" where
  "stable_unique_loop observed [] = []"
| "stable_unique_loop observed (tag # tags) =
     (if tag \<notin> observed then tag # stable_unique_loop (insert tag observed) tags
      else stable_unique_loop observed tags)"

definition stable_unique_tags :: "'t list \<Rightarrow> 't list" where
  "stable_unique_tags tags = stable_unique_loop {} tags"

text \<open>
  The body of \<^verbatim>\<open>get_supported\<close> in two steps: \<open>supported_list\<close> is the list
  \<^verbatim>\<open>supported\<close> after its two \<^verbatim>\<open>extend\<close> calls, each triple made a \<^verbatim>\<open>Tag\<close> (the list
  \<^verbatim>\<open>tags\<close> of the source); \<open>get_supported\<close> removes the duplicates from it.
\<close>

definition supported_list ::
  "'t env \<Rightarrow> string option \<Rightarrow> string option \<Rightarrow> string option \<Rightarrow> string option
     \<Rightarrow> 't list traced" where
  "supported_list env version platform impl abi =
     (case (case version of
              None \<Rightarrow> Inr None
            | Some v \<Rightarrow> (case get_python_version v of Inl e \<Rightarrow> Inl e | Inr pv \<Rightarrow> Inr (Some pv))) of
        Inl e \<Rightarrow> Inl e
      | Inr python_version \<Rightarrow>
          (let interpreter = get_custom_interpreter env impl version;
               abis = (case abi of None \<Rightarrow> None | Some a \<Rightarrow> Some [a])
           in case (case platform of
                      None \<Rightarrow> Inr (None, [])
                    | Some p \<Rightarrow> (case get_custom_platforms env p (Some p) of
                                  Inl e \<Rightarrow> Inl e
                                | Inr (arches, log) \<Rightarrow> Inr (Some arches, log))) of
                Inl e \<Rightarrow> Inl e
              | Inr (platforms, log1) \<Rightarrow>
                  (let is_cpython = ((case impl of
                                        None \<Rightarrow> tags_interpreter_name env
                                      | Some i \<Rightarrow> if i \<noteq> [] then i else tags_interpreter_name env)
                                     = ''cp'')
                   in case (if is_cpython
                            then Inr (tags_cpython_tags env python_version abis platforms, [])
                            else (case generic_tags env version platform impl abi of
                                    Inl e \<Rightarrow> Inl e
                                  | Inr (parts, log) \<Rightarrow>
                                      Inr (map (\<lambda>(i, a, p). tags_Tag env i a p) parts, log))) of
                        Inl e \<Rightarrow> Inl e
                      | Inr (supported, log2) \<Rightarrow>
                          Inr (supported
                               @ tags_compatible_tags env python_version interpreter platforms,
                               log1 @ log2))))"

definition get_supported ::
  "'t env \<Rightarrow> string option \<Rightarrow> string option \<Rightarrow> string option \<Rightarrow> string option
     \<Rightarrow> 't list traced" where
  "get_supported env version platform impl abi =
     (case supported_list env version platform impl abi of
        Inl e \<Rightarrow> Inl e
      | Inr (tags, log) \<Rightarrow> Inr (stable_unique_tags tags, log))"

subsection \<open>Sample environments\<close>

text \<open>
  Concrete environments on which the theorems below are exercised. Their tags are
  plain triples.
\<close>

text \<open>
  Modelled from the spec: the macOS platform generator \<^verbatim>\<open>packaging.tags.mac_platforms\<close>
  is not part of this module; section 4.3 says it "enumerates every macOS
  baseline-version platform string the given minimum version satisfies", and
  section 8 that \<^verbatim>\<open>macosx_10_9_x86_64\<close> expands to "every macOS baseline from 10.9 down
  through the oldest supported baseline, same architecture". \<open>spec_mac_platforms\<close>
  lists \<^verbatim>\<open>macosx_<major>_<m>_<arch>\<close> for \<open>m\<close> from the minor version down to 0. It is
  used by the sample environments only; the functions of the module take the
  generator from the environment.
\<close>

definition spec_mac_platforms :: "int \<times> int \<Rightarrow> string \<Rightarrow> string list" where
  "spec_mac_platforms version arch =
     map (\<lambda>m. ''macosx_'' @ py_str (nat (fst version)) @ ''_'' @ py_str m @ ''_'' @ arch)
         (rev [0 ..< Suc (nat (snd version))])"

text \<open>Stand-ins for the two tag generators of \<^verbatim>\<open>packaging.tags\<close>, small enough to
  evaluate. The first pairs the interpreter with each given ABI, then \<^verbatim>\<open>none\<close>, and
  each platform; the second lists the interpreter with ABI \<^verbatim>\<open>none\<close> on each platform,
  then the universal tag. \<open>own_platforms\<close> is what they use when no platform list is
  given, and \<open>own_version\<close> when no version is.\<close>

definition sample_cpython_tags ::
  "string \<Rightarrow> string list \<Rightarrow> int list option \<Rightarrow> string list option \<Rightarrow> string list option
     \<Rightarrow> (string \<times> string \<times> string) list" where
  "sample_cpython_tags own_version own_platforms python_version abis platforms =
     (let interpreter = ''cp'' @ (case python_version of
                                    None \<Rightarrow> own_version
                                  | Some pv \<Rightarrow> concat (map (\<lambda>n. py_str (nat n)) pv))
      in concat (map (\<lambda>a. map (\<lambda>p. (interpreter, a, p))
                               (case platforms of None \<Rightarrow> own_platforms | Some ps \<Rightarrow> ps))
                     ((case abis of None \<Rightarrow> [] | Some as \<Rightarrow> as) @ [''none''])))"

definition sample_compatible_tags ::
  "string list \<Rightarrow> int list option \<Rightarrow> string \<Rightarrow> string list option
     \<Rightarrow> (string \<times> string \<times> string) list" where
  "sample_compatible_tags own_platforms python_version interpreter platforms =
     map (\<lambda>p. (interpreter, ''none'', p))
         (case platforms of None \<Rightarrow> own_platforms | Some ps \<Rightarrow> ps)
     @ [(interpreter, ''none'', ''any'')]"

text \<open>CPython 3.8 on 64-bit x86 Linux with glibc 2.17, no \<^verbatim>\<open>_manylinux\<close> module.\<close>

definition linux_env :: "(string \<times> string \<times> string) env" where
  "linux_env =
     \<lparr> sys_platform = ''linux'',
       sys_maxsize = 9223372036854775807,
       sys_version_info = (3, 8),
       sys_pypy_version_info = None,
       sys_maxunicode = Some 0x10ffff,
       sys_has_gettotalrefcount = False,
       sys_executable_image = None,
       platform_mac_ver = ([], []),
       distutils_get_platform = ''linux-x86_64'',
       sysconfig_get_config_var =
         (\<lambda>var. if var = ''SOABI'' then Some (CStr ''cpython-38-x86_64-linux-gnu'') else None),
       manylinux = None,
       glibc_have_compatible_glibc = (\<lambda>major minor. major = 2 \<and> minor \<le> 17),
       tags_interpreter_name = ''cp'',
       tags_interpreter_version = ''38'',
       tags_mac_platforms = spec_mac_platforms,
       tags_cpython_tags = sample_cpython_tags ''38'' [''linux_x86_64''],
       tags_compatible_tags = sample_compatible_tags [''linux_x86_64''],
       tags_Tag = (\<lambda>i a p. (i, a, p)) \<rparr>"

text \<open>The first 40 bytes of a 32-bit little-endian ARM executable, EABI version 5,
  hard-float flag set (\<^verbatim>\<open>e_flags = 0x05000400\<close>).\<close>

definition armhf_header :: "byte list" where
  "armhf_header =
     [0x7f, 0x45, 0x4c, 0x46, 1, 1, 1, 0, 0, 0, 0, 0, 0, 0, 0, 0,
      2, 0, 0x28, 0, 1, 0, 0, 0, 0, 0, 0, 0, 0x34, 0, 0, 0,
      0, 0, 0, 0, 0, 4, 0, 5]"

definition armv7l_env :: "(string \<times> string \<times> string) env" where
  "armv7l_env =
     linux_env \<lparr> sys_maxsize := 2147483647,
                 distutils_get_platform := ''linux-armv7l'',
                 sys_executable_image := Some (armhf_header @ [0, 0, 0, 0]),
                 sysconfig_get_config_var :=
                   (\<lambda>var. if var = ''SOABI'' then Some (CStr ''cpython-38-arm-linux-gnueabihf'')
                           else None),
                 tags_cpython_tags := sample_cpython_tags ''38'' [''linux_armv7l''],
                 tags_compatible_tags := sample_compatible_tags [''linux_armv7l''] \<rparr>"

text \<open>A 32-bit CPython 2.7 without \<^verbatim>\<open>SOABI\<close>, on a 64-bit Linux kernel and on
  macOS 10.6.\<close>

definition linux32_env :: "(string \<times> string \<times> string) env" where
  "linux32_env =
     linux_env \<lparr> sys_maxsize := 2147483647,
                 sys_version_info := (2, 7),
                 sysconfig_get_config_var :=
                   (\<lambda>var. if var = ''Py_UNICODE_SIZE'' then Some (CInt 4) else None),
                 tags_interpreter_version := ''27'',
                 tags_cpython_tags := sample_cpython_tags ''27'' [''linux_i686''],
                 tags_compatible_tags := sample_compatible_tags [''linux_i686''] \<rparr>"

definition darwin32_env :: "(string \<times> string \<times> string) env" where
  "darwin32_env =
     linux32_env \<lparr> sys_platform := ''darwin'',
                   platform_mac_ver := (''10.6.8'', ''x86_64''),
                   distutils_get_platform := ''macosx-10.6-intel'',
                   tags_cpython_tags := sample_cpython_tags ''27'' [''macosx_10_6_i386''],
                   tags_compatible_tags := sample_compatible_tags [''macosx_10_6_i386''] \<rparr>"

text \<open>The 32-bit CPython 2.7 above on a runtime whose \<^verbatim>\<open>sys\<close> module has no
  \<^verbatim>\<open>maxunicode\<close>, and a PyPy 7.3 for Python 3.6 with its own \<^verbatim>\<open>SOABI\<close>.\<close>

definition no_maxunicode_env :: "(string \<times> string \<times> string) env" where
  "no_maxunicode_env = linux32_env \<lparr> sys_maxunicode := None \<rparr>"

definition pypy_env :: "(string \<times> string \<times> string) env" where
  "pypy_env =
     linux_env \<lparr> sys_version_info := (3, 6),
                 sys_pypy_version_info := Some (7, 3),
                 sysconfig_get_config_var :=
                   (\<lambda>var. if var = ''SOABI'' then Some (CStr ''pypy36-pp73'') else None),
                 tags_interpreter_name := ''pp'',
                 tags_interpreter_version := ''36'' \<rparr>"

text \<open>The Linux environment above with glibc 2.12 and a \<^verbatim>\<open>_manylinux\<close> module that
  says no for tier 1, has no attribute for tier 2010 and says yes for tier 2014.\<close>

definition marker_env :: "(string \<times> string \<times> string) env" where
  "marker_env =
     linux_env \<lparr> manylinux := Some \<lparr> manylinux1_compatible = Some False,
                                       manylinux2010_compatible = None,
                                       manylinux2014_compatible = Some True \<rparr>,
                 glibc_have_compatible_glibc := (\<lambda>major minor. major = 2 \<and> minor \<le> 12) \<rparr>"

text \<open>The ARM environment above with a soft-float executable: the flag byte 37 of
  its header is zero.\<close>

definition armv7l_softfloat_env :: "(string \<times> string \<times> string) env" where
  "armv7l_softfloat_env =
     armv7l_env \<lparr> sys_executable_image := Some (armhf_header [37 := 0]) \<rparr>"

subsection \<open>Properties named by the specification\<close>

text \<open>
  The six checks of the hard-float probe as the specification words them, by byte
  index: the ELF magic in bytes 0 to 3, class byte 4 equal to 1 (32-bit), data byte 5
  equal to 1 (little-endian), the ARM machine code \<^verbatim>\<open>0x28 0x00\<close> in bytes 18 and 19,
  byte 39 equal to 5 (EABI version 5), and bit 2 of byte 37 set (hard float).
\<close>

definition armhf_checks :: "byte list \<Rightarrow> bool" where
  "armhf_checks h =
     (h ! 0 = 0x7f \<and> h ! 1 = 0x45 \<and> h ! 2 = 0x4c \<and> h ! 3 = 0x46
      \<and> h ! 4 = 1
      \<and> h ! 5 = 1
      \<and> h ! 18 = 0x28 \<and> h ! 19 = 0
      \<and> h ! 39 = 5
      \<and> bit (h ! 37) 2)"

text \<open>The integer value of a string of decimal digits, most significant digit
  first.\<close>

definition decimal_value :: "string \<Rightarrow> nat" where
  "decimal_value ds = foldl (\<lambda>acc c. 10 * acc + digit_val c) 0 ds"

section \<open>Theorems\<close>

subsection \<open>Platform identity\<close>

text \<open>
  Claim C8. In a 32-bit process (\<^verbatim>\<open>sys.maxsize\<close> is \<open>2^31 - 1\<close>): off macOS, when the
  normalised platform string of the operating system is \<^verbatim>\<open>linux_x86_64\<close>,
  \<^verbatim>\<open>get_platform\<close> returns \<^verbatim>\<open>linux_i686\<close>; on macOS, with a release of at least two
  dot-separated fields, machine \<^verbatim>\<open>x86_64\<close> is rewritten to \<^verbatim>\<open>i386\<close> and \<^verbatim>\<open>ppc64\<close> to
  \<^verbatim>\<open>ppc\<close> before the platform string is composed.
\<close>

theorem get_platform_32bit_downgrade:
  assumes "sys_maxsize env = 2 ^ 31 - 1"
  shows "(sys_platform env \<noteq> ''darwin'' \<and>
          py_replace CHR ''-'' CHR ''_'' (py_replace CHR ''.'' CHR ''_'' (distutils_get_platform env))
            = ''linux_x86_64''
          \<longrightarrow> get_platform env = Inr ''linux_i686'')
       \<and> (sys_platform env = ''darwin'' \<and> platform_mac_ver env = (release, machine) \<and>
          py_split CHR ''.'' release = v0 # v1 # rest
          \<longrightarrow> get_platform env =
                Inr (''macosx_'' @ v0 @ ''_'' @ v1 @ ''_'' @
                     (if machine = ''x86_64'' then ''i386''
                      else if machine = ''ppc64'' then ''ppc'' else machine)))"
  using assms by (simp add: get_platform_def is_running_32bit_def)

theorem get_platform_32bit_downgrade_witness:
  "get_platform linux32_env = Inr ''linux_i686''
   \<and> get_platform darwin32_env = Inr ''macosx_10_6_i386''"
proof -
  have m1: "sys_maxsize linux32_env = 2 ^ 31 - 1"
    by (simp add: linux32_env_def linux_env_def)
  have m2: "sys_maxsize darwin32_env = 2 ^ 31 - 1"
    by (simp add: darwin32_env_def linux32_env_def linux_env_def)
  have l: "sys_platform linux32_env \<noteq> ''darwin'' \<and>
           py_replace CHR ''-'' CHR ''_''
             (py_replace CHR ''.'' CHR ''_'' (distutils_get_platform linux32_env))
           = ''linux_x86_64''"
    by (simp add: linux32_env_def linux_env_def py_replace_def)
  have d: "sys_platform darwin32_env = ''darwin'' \<and>
           platform_mac_ver darwin32_env = (''10.6.8'', ''x86_64'') \<and>
           py_split CHR ''.'' ''10.6.8'' = ''10'' # ''6'' # [''8'']"
    by (simp add: darwin32_env_def linux32_env_def linux_env_def)
  from get_platform_32bit_downgrade [OF m1, THEN conjunct1, rule_format, OF l]
       get_platform_32bit_downgrade [OF m2, THEN conjunct2, rule_format, OF d]
  show ?thesis by simp
qed

subsection \<open>Hard-float ARM detection\<close>

lemma and_exp_cases: "x AND 2 ^ n = (if bit x n then 2 ^ n else 0)" for x :: byte
  by (rule bit_eqI) (auto simp: bit_and_iff bit_exp_iff)

lemma and4_bit2: "(x AND 4 = 4) = bit x 2" for x :: byte
  using and_exp_cases [of x 2] by (auto split: if_splits)

lemma slice_take: "b \<le> n \<Longrightarrow> py_slice a b (take n xs) = py_slice a b xs"
  by (simp add: py_slice_def drop_take min_def)

lemma slice_empty: "b \<le> a \<Longrightarrow> py_slice a b xs = []"
  by (simp add: py_slice_def)

lemma slice_step: "a < length xs \<Longrightarrow> a < b \<Longrightarrow> py_slice a b xs = xs ! a # py_slice (Suc a) b xs"
proof -
  assume l: "a < length xs" and ab: "a < b"
  from ab obtain k where k: "b - a = Suc k" by (cases "b - a") auto
  then have k': "b - Suc a = k" by simp
  show ?thesis
    unfolding py_slice_def k k' using l by (simp add: Cons_nth_drop_Suc [symmetric])
qed

lemma header_checks:
  assumes "40 \<le> length c"
  shows "(py_slice 0 4 (take 40 c) = [0x7f, 0x45, 0x4c, 0x46]
          \<and> py_slice 4 5 (take 40 c) = [1]
          \<and> py_slice 5 6 (take 40 c) = [1]
          \<and> py_slice 18 20 (take 40 c) = [0x28, 0]
          \<and> py_slice 39 40 (take 40 c) = [5]
          \<and> (py_slice 37 38 (take 40 c) ! 0) AND 4 = 4) = armhf_checks c"
proof -
  have s4: "py_slice 0 4 (take 40 c) = [c ! 0, c ! 1, c ! 2, c ! 3]"
    using assms by (simp add: slice_take slice_step slice_empty numeral_2_eq_2 numeral_3_eq_3)
  have s5: "py_slice 4 5 (take 40 c) = [c ! 4]"
    using assms by (simp add: slice_take slice_step slice_empty)
  have s6: "py_slice 5 6 (take 40 c) = [c ! 5]"
    using assms by (simp add: slice_take slice_step slice_empty)
  have s18: "py_slice 18 20 (take 40 c) = [c ! 18, c ! 19]"
    using assms by (simp add: slice_take slice_step slice_empty)
  have s39: "py_slice 39 40 (take 40 c) = [c ! 39]"
    using assms by (simp add: slice_take slice_step slice_empty)
  have s37: "py_slice 37 38 (take 40 c) = [c ! 37]"
    using assms by (simp add: slice_take slice_step slice_empty)
  show ?thesis
    unfolding s4 s5 s6 s18 s39 s37 armhf_checks_def by (simp add: and4_bit2)
qed

text \<open>
  Claim C2. \<^verbatim>\<open>is_linux_armhf\<close> returns true exactly when the platform string is
  \<^verbatim>\<open>linux_armv7l\<close>, the executable can be read, it has at least 40 bytes and the six
  byte checks hold. Whenever the platform string can be computed and one of these
  fails (another platform, an I/O error, a short read, a mismatched byte), it returns
  false.
\<close>

theorem is_linux_armhf_iff:
  "(is_linux_armhf env = Inr True \<longleftrightarrow>
      get_platform env = Inr ''linux_armv7l'' \<and>
      (\<exists>contents. sys_executable_image env = Some contents \<and> 40 \<le> length contents
                   \<and> armhf_checks contents))
   \<and> (\<forall>p. get_platform env = Inr p \<and>
           \<not> (p = ''linux_armv7l'' \<and>
              (\<exists>contents. sys_executable_image env = Some contents \<and> 40 \<le> length contents
                           \<and> armhf_checks contents))
         \<longrightarrow> is_linux_armhf env = Inr False)"
proof (cases "get_platform env")
  case (Inl e)
  then show ?thesis by (simp add: is_linux_armhf_def)
next
  case (Inr p)
  show ?thesis
  proof (cases "sys_executable_image env")
    case None
    with Inr show ?thesis by (simp add: is_linux_armhf_def)
  next
    case (Some c)
    show ?thesis
    proof (cases "40 \<le> length c")
      case True
      with Inr Some header_checks [OF True] show ?thesis
        by (simp add: is_linux_armhf_def Let_def)
    next
      case False
      with Inr Some show ?thesis by (simp add: is_linux_armhf_def Let_def)
    qed
  qed
qed

theorem is_linux_armhf_iff_witness:
  "is_linux_armhf armv7l_env = Inr True
   \<and> is_linux_armhf (armv7l_env \<lparr> sys_executable_image := Some (take 39 armhf_header) \<rparr>) = Inr False
   \<and> is_linux_armhf (armv7l_env \<lparr> sys_executable_image := Some (armhf_header [37 := 0]) \<rparr>) = Inr False
   \<and> is_linux_armhf (armv7l_env \<lparr> sys_executable_image := None \<rparr>) = Inr False"
proof -
  have p: "\<And>x. get_platform (armv7l_env \<lparr> sys_executable_image := x \<rparr>) = Inr ''linux_armv7l''"
    by (simp add: get_platform_def armv7l_env_def linux_env_def py_replace_def)
  have p0: "get_platform armv7l_env = Inr ''linux_armv7l''"
    by (simp add: get_platform_def armv7l_env_def linux_env_def py_replace_def)
  have c: "armhf_checks (armhf_header @ [0, 0, 0, 0])"
    by (simp add: armhf_checks_def armhf_header_def bit_numeral_word_iff)
  have "is_linux_armhf armv7l_env = Inr True"
    using is_linux_armhf_iff [of armv7l_env, THEN conjunct1] p0 c
    by (simp add: armv7l_env_def armhf_header_def)
  moreover have "is_linux_armhf (armv7l_env \<lparr> sys_executable_image := Some (take 39 armhf_header) \<rparr>) = Inr False"
    by (rule is_linux_armhf_iff [THEN conjunct2, rule_format, of _ "''linux_armv7l''"])
       (simp add: p armhf_header_def)
  moreover have "is_linux_armhf (armv7l_env \<lparr> sys_executable_image := Some (armhf_header [37 := 0]) \<rparr>) = Inr False"
    by (rule is_linux_armhf_iff [THEN conjunct2, rule_format, of _ "''linux_armv7l''"])
       (simp add: p armhf_header_def armhf_checks_def)
  moreover have "is_linux_armhf (armv7l_env \<lparr> sys_executable_image := None \<rparr>) = Inr False"
    by (rule is_linux_armhf_iff [THEN conjunct2, rule_format, of _ "''linux_armv7l''"])
       (simp add: p)
  ultimately show ?thesis by blast
qed

subsection \<open>Environment compatibility predicates\<close>

lemma is_linux_armhf_returns:
  "get_platform env = Inr p \<Longrightarrow> \<exists>b. is_linux_armhf env = Inr b"
  by (auto simp: is_linux_armhf_def Let_def split: option.split)

text \<open>
  Claim C3, amended. Each tier predicate returns true exactly when the platform
  string is computed and is in the tier's allow-list, and either the \<^verbatim>\<open>_manylinux\<close>
  module is importable and its attribute for the tier is true, or the module is
  missing or present without the attribute for the tier and the glibc check passes
  with the tier's floor: 2.5 for tier 1, 2.12 for tier 2010, 2.17 for tier 2014.
  Tier 2014 on \<^verbatim>\<open>linux_armv7l\<close> needs the hard-float probe to return true as well. A
  module whose attribute for the tier is false makes the predicate false whatever
  glibc says. The statement is over the fields of the environment themselves.
\<close>

theorem manylinux_compatible_iff:
  "((\<exists>log. is_manylinux1_compatible env = Inr (True, log)) \<longleftrightarrow>
      (\<exists>p. get_platform env = Inr p \<and> p \<in> {''linux_x86_64'', ''linux_i686''}) \<and>
      ((\<exists>m. manylinux env = Some m \<and> manylinux1_compatible m = Some True) \<or>
       (manylinux env = None \<or> (\<exists>m. manylinux env = Some m \<and> manylinux1_compatible m = None))
       \<and> glibc_have_compatible_glibc env 2 5))
   \<and> ((\<exists>log. is_manylinux2010_compatible env = Inr (True, log)) \<longleftrightarrow>
      (\<exists>p. get_platform env = Inr p \<and> p \<in> {''linux_x86_64'', ''linux_i686''}) \<and>
      ((\<exists>m. manylinux env = Some m \<and> manylinux2010_compatible m = Some True) \<or>
       (manylinux env = None \<or> (\<exists>m. manylinux env = Some m \<and> manylinux2010_compatible m = None))
       \<and> glibc_have_compatible_glibc env 2 12))
   \<and> ((\<exists>log. is_manylinux2014_compatible env = Inr (True, log)) \<longleftrightarrow>
      (\<exists>p. get_platform env = Inr p \<and>
           p \<in> {''linux_x86_64'', ''linux_i686'', ''linux_aarch64'', ''linux_armv7l'',
                 ''linux_ppc64'', ''linux_ppc64le'', ''linux_s390x''} \<and>
           (p = ''linux_armv7l'' \<longrightarrow> is_linux_armhf env = Inr True)) \<and>
      ((\<exists>m. manylinux env = Some m \<and> manylinux2014_compatible m = Some True) \<or>
       (manylinux env = None \<or> (\<exists>m. manylinux env = Some m \<and> manylinux2014_compatible m = None))
       \<and> glibc_have_compatible_glibc env 2 17))"
proof (cases "get_platform env")
  case (Inl e)
  then show ?thesis
    by (simp add: is_manylinux1_compatible_def is_manylinux2010_compatible_def
        is_manylinux2014_compatible_def)
next
  case (Inr p)
  have yes: "(manylinux_marker env attr = Some True) =
              (\<exists>m. manylinux env = Some m \<and> attr m = Some True)" for attr
    by (cases "manylinux env") (simp_all add: manylinux_marker_def)
  have undecided: "(manylinux_marker env attr = None) =
              (manylinux env = None \<or> (\<exists>m. manylinux env = Some m \<and> attr m = None))" for attr
    by (cases "manylinux env") (simp_all add: manylinux_marker_def)
  have t1: "(\<exists>log. is_manylinux1_compatible env = Inr (True, log)) \<longleftrightarrow>
      p \<in> {''linux_x86_64'', ''linux_i686''} \<and>
      (manylinux_marker env manylinux1_compatible = Some True \<or>
       manylinux_marker env manylinux1_compatible = None \<and> glibc_have_compatible_glibc env 2 5)"
    using Inr by (cases "manylinux_marker env manylinux1_compatible")
      (auto simp: is_manylinux1_compatible_def have_compatible_glibc_def)
  have t2: "(\<exists>log. is_manylinux2010_compatible env = Inr (True, log)) \<longleftrightarrow>
      p \<in> {''linux_x86_64'', ''linux_i686''} \<and>
      (manylinux_marker env manylinux2010_compatible = Some True \<or>
       manylinux_marker env manylinux2010_compatible = None \<and> glibc_have_compatible_glibc env 2 12)"
    using Inr by (cases "manylinux_marker env manylinux2010_compatible")
      (auto simp: is_manylinux2010_compatible_def have_compatible_glibc_def)
  from is_linux_armhf_returns [OF Inr] obtain b where b: "is_linux_armhf env = Inr b" ..
  have t3: "(\<exists>log. is_manylinux2014_compatible env = Inr (True, log)) \<longleftrightarrow>
      p \<in> {''linux_x86_64'', ''linux_i686'', ''linux_aarch64'', ''linux_armv7l'',
                 ''linux_ppc64'', ''linux_ppc64le'', ''linux_s390x''} \<and>
      (p = ''linux_armv7l'' \<longrightarrow> b) \<and>
      (manylinux_marker env manylinux2014_compatible = Some True \<or>
       manylinux_marker env manylinux2014_compatible = None \<and> glibc_have_compatible_glibc env 2 17)"
    using Inr b by (cases "manylinux_marker env manylinux2014_compatible")
      (auto simp: is_manylinux2014_compatible_def have_compatible_glibc_def)
  show ?thesis unfolding t1 t2 t3 yes undecided using Inr b by auto
qed

lemma get_platform_linux_env: "get_platform linux_env = Inr ''linux_x86_64''"
  by (simp add: get_platform_def linux_env_def py_replace_def is_running_32bit_def)

lemma get_platform_armv7l_env: "get_platform armv7l_env = Inr ''linux_armv7l''"
  by (simp add: get_platform_def armv7l_env_def linux_env_def py_replace_def)

lemma is_linux_armhf_armv7l_env: "is_linux_armhf armv7l_env = Inr True"
  by (simp add: is_linux_armhf_def get_platform_armv7l_env)
     (simp add: armv7l_env_def linux_env_def armhf_header_def py_slice_def)

lemma get_platform_marker_env: "get_platform marker_env = Inr ''linux_x86_64''"
  by (simp add: get_platform_def marker_env_def linux_env_def py_replace_def
      is_running_32bit_def)

lemma get_platform_armv7l_softfloat_env:
  "get_platform armv7l_softfloat_env = Inr ''linux_armv7l''"
  by (simp add: get_platform_def armv7l_softfloat_env_def armv7l_env_def linux_env_def
      py_replace_def)

lemma is_linux_armhf_armv7l_softfloat_env: "is_linux_armhf armv7l_softfloat_env = Inr False"
  by (simp add: is_linux_armhf_def get_platform_armv7l_softfloat_env)
     (simp add: armv7l_softfloat_env_def armv7l_env_def linux_env_def armhf_header_def
        py_slice_def)

theorem manylinux_compatible_iff_witness:
  "(\<exists>log. is_manylinux1_compatible linux_env = Inr (True, log))
   \<and> (\<exists>log. is_manylinux2014_compatible marker_env = Inr (True, log))
   \<and> (\<exists>log. is_manylinux2010_compatible marker_env = Inr (True, log))
   \<and> \<not> (\<exists>log. is_manylinux1_compatible marker_env = Inr (True, log))
   \<and> (\<exists>log. is_manylinux2014_compatible armv7l_env = Inr (True, log))
   \<and> \<not> (\<exists>log. is_manylinux2014_compatible armv7l_softfloat_env = Inr (True, log))"
proof -
  have l: "manylinux linux_env = None" "glibc_have_compatible_glibc linux_env 2 5"
    by (simp_all add: linux_env_def)
  have m: "manylinux marker_env = Some \<lparr> manylinux1_compatible = Some False,
                                           manylinux2010_compatible = None,
                                           manylinux2014_compatible = Some True \<rparr>"
    "glibc_have_compatible_glibc marker_env 2 5"
    "glibc_have_compatible_glibc marker_env 2 12"
    "\<not> glibc_have_compatible_glibc marker_env 2 17"
    by (simp_all add: marker_env_def linux_env_def)
  have a: "manylinux armv7l_env = None" "glibc_have_compatible_glibc armv7l_env 2 17"
    by (simp_all add: armv7l_env_def linux_env_def)
  have 1: "\<exists>log. is_manylinux1_compatible linux_env = Inr (True, log)"
    by (rule manylinux_compatible_iff [THEN conjunct1, THEN iffD2])
       (simp add: get_platform_linux_env l)
  have 2: "\<exists>log. is_manylinux2014_compatible marker_env = Inr (True, log)"
    by (rule manylinux_compatible_iff [THEN conjunct2, THEN conjunct2, THEN iffD2])
       (simp add: get_platform_marker_env m)
  have 3: "\<exists>log. is_manylinux2010_compatible marker_env = Inr (True, log)"
    by (rule manylinux_compatible_iff [THEN conjunct2, THEN conjunct1, THEN iffD2])
       (simp add: get_platform_marker_env m)
  have 4: "\<not> (\<exists>log. is_manylinux1_compatible marker_env = Inr (True, log))"
    unfolding manylinux_compatible_iff [THEN conjunct1]
    by (simp add: m)
  have 5: "\<exists>log. is_manylinux2014_compatible armv7l_env = Inr (True, log)"
    by (rule manylinux_compatible_iff [THEN conjunct2, THEN conjunct2, THEN iffD2])
       (simp add: get_platform_armv7l_env is_linux_armhf_armv7l_env a)
  have 6: "\<not> (\<exists>log. is_manylinux2014_compatible armv7l_softfloat_env = Inr (True, log))"
    unfolding manylinux_compatible_iff [THEN conjunct2, THEN conjunct2]
    by (simp add: get_platform_armv7l_softfloat_env is_linux_armhf_armv7l_softfloat_env)
  from 1 2 3 4 5 6 show ?thesis by blast
qed

text \<open>
  Claim C3 as stated fails where the \<^verbatim>\<open>_manylinux\<close> module is present but has no
  attribute for the tier: the source catches \<^verbatim>\<open>AttributeError\<close> next to \<^verbatim>\<open>ImportError\<close>
  and falls through to the glibc check, so tier 2010 is compatible here although a
  marker module is present and does not say yes.
\<close>

theorem manylinux_compatible_iff_counterexample:
  "manylinux marker_env = Some \<lparr> manylinux1_compatible = Some False,
                                   manylinux2010_compatible = None,
                                   manylinux2014_compatible = Some True \<rparr>
   \<and> is_manylinux2010_compatible marker_env = Inr (True, [GlibcCheck 2 12])"
proof -
  have m: "manylinux marker_env = Some \<lparr> manylinux1_compatible = Some False,
                                           manylinux2010_compatible = None,
                                           manylinux2014_compatible = Some True \<rparr>"
    and g: "glibc_have_compatible_glibc marker_env 2 12"
    by (simp_all add: marker_env_def linux_env_def)
  have "is_manylinux2010_compatible marker_env = Inr (True, [GlibcCheck 2 12])"
    by (simp add: is_manylinux2010_compatible_def get_platform_marker_env
        manylinux_marker_def have_compatible_glibc_def m g)
  with m show ?thesis by (simp only: simp_thms)
qed

subsection \<open>Stable de-duplication\<close>

lemma set_stable_unique_loop: "set (stable_unique_loop observed tags) = set tags - observed"
  by (induction tags arbitrary: observed) auto

lemma distinct_stable_unique_loop: "distinct (stable_unique_loop observed tags)"
  by (induction tags arbitrary: observed) (auto simp: set_stable_unique_loop)

lemma stable_unique_loop_first_occurrences:
  "stable_unique_loop observed tags =
     map (\<lambda>i. tags ! i)
         (filter (\<lambda>i. tags ! i \<notin> observed \<union> set (take i tags)) [0 ..< length tags])"
proof (induction tags arbitrary: observed)
  case Nil
  show ?case by simp
next
  case (Cons t ts)
  have shift: "[0 ..< length (t # ts)] = 0 # map Suc [0 ..< length ts]"
    by (simp add: upt_conv_Cons map_Suc_upt del: upt_Suc)
  have rest: "map (\<lambda>i. (t # ts) ! i)
                (filter (\<lambda>i. (t # ts) ! i \<notin> observed \<union> set (take i (t # ts)))
                        (map Suc [0 ..< length ts]))
              = stable_unique_loop (insert t observed) ts"
    unfolding Cons.IH [of "insert t observed"]
    by (simp add: filter_map comp_def conj_ac)
  show ?case
  proof (cases "t \<in> observed")
    case True
    then have "insert t observed = observed" by auto
    with True rest show ?thesis unfolding shift by simp
  next
    case False
    with rest show ?thesis unfolding shift by simp
  qed
qed

text \<open>
  Claim C6. For every environment and every combination of overrides, a sequence
  returned by \<^verbatim>\<open>get_supported\<close> holds no tag twice, and it is the concatenated list
  \<^verbatim>\<open>supported\<close> restricted to the positions at which a tag occurs for the first time,
  in their order: the first occurrence of each tag is kept and nothing is reordered.
\<close>

theorem get_supported_unique:
  assumes "get_supported env version platform impl abi = Inr (tags, log)"
  shows "distinct tags \<and>
         (\<exists>supported. supported_list env version platform impl abi = Inr (supported, log) \<and>
            set tags = set supported \<and>
            tags = map (\<lambda>i. supported ! i)
                       (filter (\<lambda>i. supported ! i \<notin> set (take i supported))
                               [0 ..< length supported]))"
proof -
  from assms obtain supported
    where s: "supported_list env version platform impl abi = Inr (supported, log)"
      and t: "tags = stable_unique_tags supported"
    by (auto simp: get_supported_def split: sum.splits)
  have "distinct tags"
    unfolding t stable_unique_tags_def by (rule distinct_stable_unique_loop)
  moreover have "set tags = set supported"
    unfolding t stable_unique_tags_def by (simp add: set_stable_unique_loop)
  moreover have "tags = map (\<lambda>i. supported ! i)
                       (filter (\<lambda>i. supported ! i \<notin> set (take i supported))
                               [0 ..< length supported])"
    unfolding t stable_unique_tags_def
    using stable_unique_loop_first_occurrences [of "{}" supported] by simp
  ultimately show ?thesis using s by blast
qed


lemma get_supported_zz_manylinux2010:
  "get_supported linux_env (Some ''10'') (Some ''manylinux2010_i686'') (Some ''zz'') None =
     Inr ([(''zz10'', ''cp38'', ''manylinux2010_i686''),
           (''zz10'', ''cp38'', ''manylinux1_i686''),
           (''zz10'', ''none'', ''manylinux2010_i686''),
           (''zz10'', ''none'', ''manylinux1_i686''),
           (''zz10'', ''none'', ''any'')], [])"
  by code_simp

lemma supported_list_zz_manylinux2010:
  "supported_list linux_env (Some ''10'') (Some ''manylinux2010_i686'') (Some ''zz'') None =
     Inr ([(''zz10'', ''cp38'', ''manylinux2010_i686''),
           (''zz10'', ''cp38'', ''manylinux1_i686''),
           (''zz10'', ''none'', ''manylinux2010_i686''),
           (''zz10'', ''none'', ''manylinux1_i686''),
           (''zz10'', ''none'', ''manylinux2010_i686''),
           (''zz10'', ''none'', ''manylinux1_i686''),
           (''zz10'', ''none'', ''any'')], [])"
  by code_simp

theorem get_supported_unique_witness:
  "get_supported linux_env (Some ''10'') (Some ''manylinux2010_i686'') (Some ''zz'') None =
     Inr ([(''zz10'', ''cp38'', ''manylinux2010_i686''),
           (''zz10'', ''cp38'', ''manylinux1_i686''),
           (''zz10'', ''none'', ''manylinux2010_i686''),
           (''zz10'', ''none'', ''manylinux1_i686''),
           (''zz10'', ''none'', ''any'')], [])
   \<and> distinct [(''zz10'', ''cp38'', ''manylinux2010_i686''),
           (''zz10'', ''cp38'', ''manylinux1_i686''),
           (''zz10'', ''none'', ''manylinux2010_i686''),
           (''zz10'', ''none'', ''manylinux1_i686''),
           (''zz10'', ''none'', ''any'')]
   \<and> set [(''zz10'', ''cp38'', ''manylinux2010_i686''),
           (''zz10'', ''cp38'', ''manylinux1_i686''),
           (''zz10'', ''none'', ''manylinux2010_i686''),
           (''zz10'', ''none'', ''manylinux1_i686''),
           (''zz10'', ''none'', ''any'')]
     = set [(''zz10'', ''cp38'', ''manylinux2010_i686''),
           (''zz10'', ''cp38'', ''manylinux1_i686''),
           (''zz10'', ''none'', ''manylinux2010_i686''),
           (''zz10'', ''none'', ''manylinux1_i686''),
           (''zz10'', ''none'', ''manylinux2010_i686''),
           (''zz10'', ''none'', ''manylinux1_i686''),
           (''zz10'', ''none'', ''any'')]"
proof -
  from get_supported_unique [OF get_supported_zz_manylinux2010]
  obtain supported where
    d: "distinct [(''zz10'', ''cp38'', ''manylinux2010_i686''),
           (''zz10'', ''cp38'', ''manylinux1_i686''),
           (''zz10'', ''none'', ''manylinux2010_i686''),
           (''zz10'', ''none'', ''manylinux1_i686''),
           (''zz10'', ''none'', ''any'')]"
    and s: "supported_list linux_env (Some ''10'') (Some ''manylinux2010_i686'') (Some ''zz'') None
            = Inr (supported, [])"
    and e: "set [(''zz10'', ''cp38'', ''manylinux2010_i686''),
           (''zz10'', ''cp38'', ''manylinux1_i686''),
           (''zz10'', ''none'', ''manylinux2010_i686''),
           (''zz10'', ''none'', ''manylinux1_i686''),
           (''zz10'', ''none'', ''any'')] = set supported"
    by blast
  from s have "supported = [(''zz10'', ''cp38'', ''manylinux2010_i686''),
           (''zz10'', ''cp38'', ''manylinux1_i686''),
           (''zz10'', ''none'', ''manylinux2010_i686''),
           (''zz10'', ''none'', ''manylinux1_i686''),
           (''zz10'', ''none'', ''manylinux2010_i686''),
           (''zz10'', ''none'', ''manylinux1_i686''),
           (''zz10'', ''none'', ''any'')]"
    unfolding supported_list_zz_manylinux2010 by simp
  with d e get_supported_zz_manylinux2010 show ?thesis by (simp only:) 
qed

subsection \<open>Expansion of a named tier\<close>

lemma partition_manylinux2014:
  "py_partition CHR ''_'' (''manylinux2014_'' @ s) = (''manylinux2014'', ''_'', s)"
  by (simp add: py_partition_def)

lemma partition_manylinux2010:
  "py_partition CHR ''_'' (''manylinux2010_'' @ s) = (''manylinux2010'', ''_'', s)"
  by (simp add: py_partition_def)

lemma manylinux_not_macosx:
  "\<not> startswith (''manylinux2014_'' @ s) ''macosx''"
  "\<not> startswith (''manylinux2010_'' @ s) ''macosx''"
  by (simp_all add: startswith_def)

lemma get_custom_platforms_explicit_log:
  assumes "get_custom_platforms env arch (Some p) = Inr (arches, log)"
  shows "log = []"
  using assms
  by (auto simp: get_custom_platforms_def split: prod.splits if_splits sum.splits)

lemma generic_tags_explicit_log:
  assumes "generic_tags env version (Some p) impl abi = Inr (parts, log)"
  shows "log = []"
  using assms
  by (auto simp: generic_tags_def Let_def
      dest: get_custom_platforms_explicit_log
      split: sum.splits list.splits if_splits prod.splits)

lemma supported_list_explicit_log:
  assumes "supported_list env version (Some p) impl abi = Inr (tags, log)"
  shows "log = []"
  using assms
  by (auto simp: supported_list_def Let_def
      dest: get_custom_platforms_explicit_log generic_tags_explicit_log
      split: sum.splits if_splits prod.splits)

text \<open>
  Claim C1, amended. Expanding \<^verbatim>\<open>manylinux2014_<arch>\<close> yields the input followed by
  \<^verbatim>\<open>manylinux2010_<arch>\<close> and \<^verbatim>\<open>manylinux1_<arch>\<close> when \<^verbatim>\<open><arch>\<close> is \<^verbatim>\<open>i686\<close> or \<^verbatim>\<open>x86_64\<close>,
  and the input alone for every other architecture suffix; expanding
  \<^verbatim>\<open>manylinux2010_<arch>\<close> yields the input followed by \<^verbatim>\<open>manylinux1_<arch>\<close> for every
  suffix. No newer tier is added. With the platform supplied as an explicit
  override, neither the expansion nor \<^verbatim>\<open>get_supported\<close> makes a glibc check.
\<close>

theorem custom_manylinux_expansion:
  "(suffix \<in> {''i686'', ''x86_64''} \<longrightarrow>
      get_custom_platforms env (''manylinux2014_'' @ suffix) platform =
        Inr ([''manylinux2014_'' @ suffix, ''manylinux2010_'' @ suffix, ''manylinux1_'' @ suffix],
             []))
   \<and> (suffix \<notin> {''i686'', ''x86_64''} \<longrightarrow>
      get_custom_platforms env (''manylinux2014_'' @ suffix) platform =
        Inr ([''manylinux2014_'' @ suffix], []))
   \<and> get_custom_platforms env (''manylinux2010_'' @ suffix) platform =
        Inr ([''manylinux2010_'' @ suffix, ''manylinux1_'' @ suffix], [])
   \<and> (get_custom_platforms env arch (Some p) = Inr (arches, log) \<longrightarrow> log = [])
   \<and> (get_supported env version (Some p) impl abi = Inr (tags, log') \<longrightarrow> log' = [])"
proof -
  have a: "suffix \<in> {''i686'', ''x86_64''} \<longrightarrow>
      get_custom_platforms env (''manylinux2014_'' @ suffix) platform =
        Inr ([''manylinux2014_'' @ suffix, ''manylinux2010_'' @ suffix, ''manylinux1_'' @ suffix],
             [])"
    unfolding get_custom_platforms_def custom_manylinux_platforms_def
      partition_manylinux2014
    using manylinux_not_macosx(1) [of suffix] by simp
  have b: "suffix \<notin> {''i686'', ''x86_64''} \<longrightarrow>
      get_custom_platforms env (''manylinux2014_'' @ suffix) platform =
        Inr ([''manylinux2014_'' @ suffix], [])"
    unfolding get_custom_platforms_def custom_manylinux_platforms_def
      partition_manylinux2014
    using manylinux_not_macosx(1) [of suffix] by simp
  have c: "get_custom_platforms env (''manylinux2010_'' @ suffix) platform =
        Inr ([''manylinux2010_'' @ suffix, ''manylinux1_'' @ suffix], [])"
    unfolding get_custom_platforms_def custom_manylinux_platforms_def
      partition_manylinux2010
    using manylinux_not_macosx(2) [of suffix] by simp
  have d: "get_custom_platforms env arch (Some p) = Inr (arches, log) \<longrightarrow> log = []"
    using get_custom_platforms_explicit_log by blast
  have e: "get_supported env version (Some p) impl abi = Inr (tags, log') \<longrightarrow> log' = []"
    by (auto simp: get_supported_def dest: supported_list_explicit_log split: sum.splits)
  from a b c d e show ?thesis by blast
qed


lemma get_supported_explicit_returns:
  "(case get_supported linux_env (Some ''38'') (Some ''manylinux2014_x86_64'') None None of
      Inl e \<Rightarrow> False | Inr r \<Rightarrow> True)"
  by code_simp

theorem custom_manylinux_expansion_witness:
  "get_custom_platforms linux_env ''manylinux2014_x86_64'' (Some ''manylinux2014_x86_64'') =
     Inr ([''manylinux2014_x86_64'', ''manylinux2010_x86_64'', ''manylinux1_x86_64''], [])
   \<and> get_custom_platforms linux_env ''manylinux2014_s390x'' (Some ''manylinux2014_s390x'') =
     Inr ([''manylinux2014_s390x''], [])
   \<and> get_custom_platforms linux_env ''manylinux2010_aarch64'' (Some ''manylinux2010_aarch64'') =
     Inr ([''manylinux2010_aarch64'', ''manylinux1_aarch64''], [])
   \<and> (\<exists>tags. get_supported linux_env (Some ''38'') (Some ''manylinux2014_x86_64'') None None =
         Inr (tags, []))"
proof -
  have 1: "get_custom_platforms linux_env ''manylinux2014_x86_64'' (Some ''manylinux2014_x86_64'') =
     Inr ([''manylinux2014_x86_64'', ''manylinux2010_x86_64'', ''manylinux1_x86_64''], [])"
    using custom_manylinux_expansion [where suffix = "''x86_64''" and env = linux_env
        and platform = "Some ''manylinux2014_x86_64''", THEN conjunct1]
    by simp
  have 2: "get_custom_platforms linux_env ''manylinux2014_s390x'' (Some ''manylinux2014_s390x'') =
     Inr ([''manylinux2014_s390x''], [])"
    using custom_manylinux_expansion [where suffix = "''s390x''" and env = linux_env
        and platform = "Some ''manylinux2014_s390x''", THEN conjunct2, THEN conjunct1]
    by simp
  have 3: "get_custom_platforms linux_env ''manylinux2010_aarch64'' (Some ''manylinux2010_aarch64'') =
     Inr ([''manylinux2010_aarch64'', ''manylinux1_aarch64''], [])"
    using custom_manylinux_expansion [where suffix = "''aarch64''" and env = linux_env
        and platform = "Some ''manylinux2010_aarch64''", THEN conjunct2, THEN conjunct2, THEN conjunct1]
    by simp
  from get_supported_explicit_returns obtain tags log
    where r: "get_supported linux_env (Some ''38'') (Some ''manylinux2014_x86_64'') None None =
         Inr (tags, log)"
    by (auto split: sum.splits)
  from custom_manylinux_expansion [where env = linux_env and version = "Some ''38''"
      and p = "''manylinux2014_x86_64''" and impl = None and abi = None and tags = tags
      and log' = log] r
  have "log = []" by blast
  with r 1 2 3 show ?thesis by blast
qed

text \<open>
  Claim C1 as stated fails for an architecture outside \<^verbatim>\<open>i686\<close> and \<^verbatim>\<open>x86_64\<close>: the source
  guards the tier-2014 expansion by \<^verbatim>\<open>arch_suffix in {'i686', 'x86_64'}\<close>.
\<close>

theorem custom_manylinux_expansion_counterexample:
  "get_custom_platforms linux_env ''manylinux2014_aarch64'' (Some ''manylinux2014_aarch64'') =
     Inr ([''manylinux2014_aarch64''], [])
   \<and> get_custom_platforms linux_env ''manylinux2014_aarch64'' (Some ''manylinux2014_aarch64'') \<noteq>
     Inr ([''manylinux2014_aarch64'', ''manylinux2010_aarch64'', ''manylinux1_aarch64''], [])"
  by code_simp

subsection \<open>Version strings\<close>

lemma digit_not_space: "is_digit c \<Longrightarrow> \<not> is_space c"
  by (auto simp: is_digit_def is_space_def Let_def)

lemma digit_not_sign: "is_digit c \<Longrightarrow> c \<noteq> CHR ''-'' \<and> c \<noteq> CHR ''+'' \<and> c \<noteq> CHR ''_''"
  by (auto simp: is_digit_def)

lemma py_strip_no_space:
  assumes "\<forall>c\<in>set s. \<not> is_space c"
  shows "py_strip s = s"
proof -
  have d: "dropWhile is_space xs = xs" if "\<forall>c\<in>set xs. \<not> is_space c" for xs
    using that by (cases xs) auto
  show ?thesis
    unfolding py_strip_def using assms by (simp add: d)
qed

lemma parse_digits_all_digits:
  assumes "\<forall>c\<in>set ds. is_digit c"
  shows "parse_digits acc after_digit ds =
           (if ds = [] then (if after_digit then Some acc else None)
            else Some (foldl (\<lambda>acc c. 10 * acc + digit_val c) acc ds))"
  using assms by (induction ds arbitrary: acc after_digit) auto

lemma py_int_digits:
  assumes "ds \<noteq> []" and "\<forall>c\<in>set ds. is_digit c"
  shows "py_int ds = Inr (int (decimal_value ds))"
proof -
  from assms obtain c cs where ds: "ds = c # cs" by (cases ds) auto
  have s: "py_strip ds = ds"
    using assms(2) by (intro py_strip_no_space) (auto dest: digit_not_space)
  have c: "is_digit c" using assms(2) ds by simp
  show ?thesis
    unfolding py_int_def s
    using digit_not_sign [OF c] parse_digits_all_digits [OF assms(2), of 0 False] assms(1)
    by (simp add: ds decimal_value_def)
qed

lemma py_int_single:
  "py_int [c] = (if is_digit c then Inr (int (digit_val c)) else Inl ValueError)"
proof (cases "is_digit c")
  case True
  then show ?thesis using py_int_digits [of "[c]"] by (simp add: decimal_value_def)
next
  case False
  then show ?thesis
    by (cases "is_space c") (auto simp: py_int_def py_strip_def)
qed

lemma digit_val_le: "is_digit c \<Longrightarrow> digit_val c \<le> 9"
  by (auto simp: is_digit_def digit_val_def)

lemma get_supported_version_error:
  assumes "get_python_version version = Inl e"
  shows "get_supported env (Some version) platform impl abi = Inl e"
  using assms by (simp add: get_supported_def supported_list_def)

lemma get_supported_cpython_version:
  assumes cp: "(case impl of
                  None \<Rightarrow> tags_interpreter_name env
                | Some i \<Rightarrow> if i \<noteq> [] then i else tags_interpreter_name env) = ''cp''"
    and r: "get_supported env (Some version) platform impl abi = Inr (tags, log)"
  shows "\<exists>pv platforms.
           get_python_version version = Inr pv
           \<and> tags = stable_unique_tags
                      (tags_cpython_tags env (Some pv)
                         (case abi of None \<Rightarrow> None | Some a \<Rightarrow> Some [a]) platforms
                       @ tags_compatible_tags env (Some pv)
                           (get_custom_interpreter env impl (Some version)) platforms)"
proof -
  from r obtain pv where pv: "get_python_version version = Inr pv"
    by (cases "get_python_version version") (auto simp: get_supported_version_error)
  let ?plat = "case platform of
                 None \<Rightarrow> Inr (None, [])
               | Some p \<Rightarrow> (case get_custom_platforms env p (Some p) of
                              Inl e \<Rightarrow> Inl e
                            | Inr (arches, log) \<Rightarrow> Inr (Some arches, log))"
  from r pv obtain platforms log1 where pl: "?plat = Inr (platforms, log1)"
    by (cases ?plat) (auto simp: get_supported_def supported_list_def Let_def)
  from r have "tags = stable_unique_tags
                      (tags_cpython_tags env (Some pv)
                         (case abi of None \<Rightarrow> None | Some a \<Rightarrow> Some [a]) platforms
                       @ tags_compatible_tags env (Some pv)
                           (get_custom_interpreter env impl (Some version)) platforms)"
    unfolding get_supported_def supported_list_def Let_def
    by (simp add: pv pl cp)
  with pv show ?thesis by blast
qed

text \<open>
  Claim C10. A version string of more than one character is read as the pair of
  \<^verbatim>\<open>int\<close> of its first character and \<^verbatim>\<open>int\<close> of all the remaining characters:
  whenever it is accepted, the first character is a decimal digit and the major
  version is that digit, between 0 and 9, so a major version of several digits
  cannot be expressed; on a string of digits the result is the first digit and the
  decimal value of the rest, so \<^verbatim>\<open>310\<close> is \<open>(3, 10)\<close> and \<^verbatim>\<open>10\<close> is \<open>(1, 0)\<close>. A string of
  one character yields the major version alone when the character is a digit.
  \<^verbatim>\<open>get_supported\<close> fails with the error of this conversion, and on the \<^verbatim>\<open>cp\<close> path it
  hands the converted version to both tag generators.
\<close>

theorem get_python_version_parse:
  "(1 < length version \<and> get_python_version version = Inr pv \<longrightarrow>
      (\<exists>major minor. pv = [major, minor]
          \<and> py_int [version ! 0] = Inr major \<and> py_int (drop 1 version) = Inr minor
          \<and> is_digit (version ! 0) \<and> major = int (digit_val (version ! 0))
          \<and> 0 \<le> major \<and> major \<le> 9))
   \<and> (1 < length version \<and> (\<forall>c\<in>set version. is_digit c) \<longrightarrow>
        get_python_version version =
          Inr [int (digit_val (version ! 0)), int (decimal_value (drop 1 version))])
   \<and> get_python_version ''310'' = Inr [3, 10]
   \<and> get_python_version ''10'' = Inr [1, 0]
   \<and> (length version = 1 \<longrightarrow>
        get_python_version version =
          (if is_digit (version ! 0) then Inr [int (digit_val (version ! 0))]
           else Inl ValueError))
   \<and> (get_python_version version = Inl e \<longrightarrow>
        get_supported env (Some version) platform impl abi = Inl e)
   \<and> ((case impl of
          None \<Rightarrow> tags_interpreter_name env
        | Some i \<Rightarrow> if i \<noteq> [] then i else tags_interpreter_name env) = ''cp''
       \<and> get_supported env (Some version) platform impl abi = Inr (tags, log) \<longrightarrow>
        (\<exists>parsed platforms.
           get_python_version version = Inr parsed
           \<and> tags = stable_unique_tags
                      (tags_cpython_tags env (Some parsed)
                         (case abi of None \<Rightarrow> None | Some a \<Rightarrow> Some [a]) platforms
                       @ tags_compatible_tags env (Some parsed)
                           (get_custom_interpreter env impl (Some version)) platforms)))"
proof -
  have a: "1 < length version \<and> get_python_version version = Inr pv \<longrightarrow>
      (\<exists>major minor. pv = [major, minor]
          \<and> py_int [version ! 0] = Inr major \<and> py_int (drop 1 version) = Inr minor
          \<and> is_digit (version ! 0) \<and> major = int (digit_val (version ! 0))
          \<and> 0 \<le> major \<and> major \<le> 9)"
    using digit_val_le [of "version ! 0"]
    by (auto simp: get_python_version_def py_int_single split: sum.splits if_splits)
  have b: "1 < length version \<and> (\<forall>c\<in>set version. is_digit c) \<longrightarrow>
        get_python_version version =
          Inr [int (digit_val (version ! 0)), int (decimal_value (drop 1 version))]"
  proof (intro impI, elim conjE)
    assume l: "1 < length version" and d: "\<forall>c\<in>set version. is_digit c"
    from l have h: "is_digit (version ! 0)" using d by (cases version) auto
    have t: "drop 1 version \<noteq> []" using l by simp
    have td: "\<forall>c\<in>set (drop 1 version). is_digit c"
      using d by (meson in_set_dropD)
    show "get_python_version version =
          Inr [int (digit_val (version ! 0)), int (decimal_value (drop 1 version))]"
      using l h py_int_digits [OF t td] by (simp add: get_python_version_def py_int_single)
  qed
  have c: "get_python_version ''310'' = Inr [3, 10]" by code_simp
  have d: "get_python_version ''10'' = Inr [1, 0]" by code_simp
  have e: "length version = 1 \<longrightarrow>
        get_python_version version =
          (if is_digit (version ! 0) then Inr [int (digit_val (version ! 0))]
           else Inl ValueError)"
    by (cases version) (auto simp: get_python_version_def py_int_single)
  have f: "get_python_version version = Inl e \<longrightarrow>
        get_supported env (Some version) platform impl abi = Inl e"
    by (simp add: get_supported_version_error)
  have g: "(case impl of
          None \<Rightarrow> tags_interpreter_name env
        | Some i \<Rightarrow> if i \<noteq> [] then i else tags_interpreter_name env) = ''cp''
       \<and> get_supported env (Some version) platform impl abi = Inr (tags, log) \<longrightarrow>
        (\<exists>parsed platforms.
           get_python_version version = Inr parsed
           \<and> tags = stable_unique_tags
                      (tags_cpython_tags env (Some parsed)
                         (case abi of None \<Rightarrow> None | Some a \<Rightarrow> Some [a]) platforms
                       @ tags_compatible_tags env (Some parsed)
                           (get_custom_interpreter env impl (Some version)) platforms))"
    using get_supported_cpython_version [where env = env and tags = tags and log = log] by blast
  from a b c d e f g show ?thesis by blast
qed

theorem get_python_version_parse_witness:
  "get_python_version ''38'' = Inr [3, 8]
   \<and> get_python_version ''3'' = Inr [3]
   \<and> get_python_version ''x'' = Inl ValueError
   \<and> (\<exists>minor. get_python_version ''3-1'' = Inr [3, minor])
   \<and> get_supported linux_env (Some ''x'') None None None = Inl ValueError"
proof -
  have r: "get_python_version ''3-1'' = Inr [3, - 1]" by code_simp
  have x: "get_python_version ''x'' = Inl ValueError" by code_simp
  have s: "get_supported linux_env (Some ''x'') None None None = Inl ValueError"
    using get_python_version_parse [where version = "''x''" and e = ValueError
        and env = linux_env and platform = None and impl = None and abi = None,
        THEN conjunct2, THEN conjunct2, THEN conjunct2, THEN conjunct2, THEN conjunct2,
        THEN conjunct1] x
    by simp
  have "get_python_version ''38'' = Inr [3, 8]"
    using get_python_version_parse [where version = "''38''", THEN conjunct2, THEN conjunct1]
    by (simp add: is_digit_def digit_val_def decimal_value_def)
  moreover have "get_python_version ''3'' = Inr [3]"
    using get_python_version_parse [where version = "''3''", THEN conjunct2, THEN conjunct2,
        THEN conjunct2, THEN conjunct2, THEN conjunct1]
    by (simp add: is_digit_def digit_val_def)
  moreover have "get_python_version ''x'' = Inl ValueError"
    using get_python_version_parse [where version = "''x''", THEN conjunct2, THEN conjunct2,
        THEN conjunct2, THEN conjunct2, THEN conjunct1]
    by (simp add: is_digit_def digit_val_def)
  moreover have "\<exists>minor. get_python_version ''3-1'' = Inr [3, minor]"
    using get_python_version_parse [where version = "''3-1''" and pv = "[3, - 1]", THEN conjunct1] r
    by simp
  ultimately show ?thesis using s by blast
qed

subsection \<open>ABI resolution\<close>

lemma py_split_nonempty: "py_split sep s \<noteq> []"
  by (induction s) (auto split: list.splits)

lemma startswithD: "startswith s p \<Longrightarrow> s = p @ drop (length p) s"
  unfolding startswith_def by (metis append_take_drop_id)

lemma py_split_cpython_prefix:
  "py_split CHR ''-'' (''cpython-'' @ t) = ''cpython'' # py_split CHR ''-'' t"
  by simp

lemma py_split_cpython:
  assumes "startswith soabi ''cpython-''"
  shows "\<exists>field rest. py_split CHR ''-'' soabi = ''cpython'' # field # rest"
proof -
  obtain field rest where f: "py_split CHR ''-'' (drop (length ''cpython-'') soabi) = field # rest"
    using py_split_nonempty [of "CHR ''-''" "drop (length ''cpython-'') soabi"]
    by (cases "py_split CHR ''-'' (drop (length ''cpython-'') soabi)") auto
  have "py_split CHR ''-'' soabi
        = py_split CHR ''-'' (''cpython-'' @ drop (length ''cpython-'') soabi)"
    using startswithD [OF assms] by simp
  also have "\<dots> = ''cpython'' # field # rest"
    unfolding py_split_cpython_prefix f ..
  finally show ?thesis by blast
qed


lemma startswith_nonempty: "startswith s ''cpython-'' \<Longrightarrow> s \<noteq> []"
  by (auto simp: startswith_def)

text \<open>
  Claim C9, amended. With no ABI supplied: when the string \<^verbatim>\<open>SOABI\<close> starts with
  \<^verbatim>\<open>cpython-\<close>, the ABI is \<^verbatim>\<open>cp\<close> followed by its second dash-separated field; when it
  is another non-empty string, it is \<^verbatim>\<open>SOABI\<close> with every dot and dash replaced by an
  underscore; when \<^verbatim>\<open>SOABI\<close> is absent or empty, the family is \<^verbatim>\<open>cp\<close> or \<^verbatim>\<open>pp\<close> and
  \<^verbatim>\<open>sys.maxunicode\<close> exists, it is family, interpreter version and the markers \<^verbatim>\<open>d\<close>,
  \<^verbatim>\<open>m\<close> (below 3.8), \<^verbatim>\<open>u\<close> (below 3.3), each read from the build configuration with
  its runtime fallback; when \<^verbatim>\<open>SOABI\<close> is absent or empty and the family is another one
  or \<^verbatim>\<open>sys.maxunicode\<close> is missing, no ABI is resolved, and then every generic tag
  has the ABI \<^verbatim>\<open>none\<close>.
\<close>

theorem get_abi_tag_resolution:
  "(get_config_var env ''SOABI'' = Some (CStr soabi) \<and> startswith soabi ''cpython-'' \<longrightarrow>
      (\<exists>field rest. py_split CHR ''-'' soabi = ''cpython'' # field # rest
                    \<and> get_abi_tag env = Inr (Some (''cp'' @ field))))
   \<and> (get_config_var env ''SOABI'' = Some (CStr soabi) \<and> soabi \<noteq> []
        \<and> \<not> startswith soabi ''cpython-'' \<longrightarrow>
      get_abi_tag env =
        Inr (Some (py_replace CHR ''-'' CHR ''_'' (py_replace CHR ''.'' CHR ''_'' soabi))))
   \<and> (\<not> truthy (get_config_var env ''SOABI'') \<and> tags_interpreter_name env \<in> {''cp'', ''pp''}
        \<and> sys_maxunicode env \<noteq> None \<longrightarrow>
      get_abi_tag env =
        Inr (Some (tags_interpreter_name env @ tags_interpreter_version env
                   @ (if (case get_config_var env ''Py_DEBUG'' of
                            None \<Rightarrow> sys_has_gettotalrefcount env
                          | Some v \<Rightarrow> v = CInt 1)
                      then ''d'' else [])
                   @ (if version_lt (sys_version_info env) (3, 8)
                         \<and> (case get_config_var env ''WITH_PYMALLOC'' of
                               None \<Rightarrow> tags_interpreter_name env = ''cp''
                             | Some v \<Rightarrow> v = CInt 1)
                      then ''m'' else [])
                   @ (if version_lt (sys_version_info env) (3, 3)
                         \<and> (case get_config_var env ''Py_UNICODE_SIZE'' of
                               None \<Rightarrow> sys_maxunicode env = Some 0x10ffff
                             | Some v \<Rightarrow> v = CInt 4)
                      then ''u'' else []))))
   \<and> (\<not> truthy (get_config_var env ''SOABI'')
        \<and> \<not> (tags_interpreter_name env \<in> {''cp'', ''pp''} \<and> sys_maxunicode env \<noteq> None) \<longrightarrow>
      get_abi_tag env = Inr None)
   \<and> (\<not> str_truthy abi \<and> get_abi_tag env = Inr None
        \<and> generic_tags env version platform impl abi = Inr (parts, log) \<longrightarrow>
      (\<exists>interpreter arches. parts = map (\<lambda>arch. (interpreter, ''none'', arch)) arches))"
proof -
  have a: "get_config_var env ''SOABI'' = Some (CStr soabi) \<and> startswith soabi ''cpython-'' \<longrightarrow>
      (\<exists>field rest. py_split CHR ''-'' soabi = ''cpython'' # field # rest
                    \<and> get_abi_tag env = Inr (Some (''cp'' @ field)))"
  proof (intro impI, elim conjE)
    assume c: "get_config_var env ''SOABI'' = Some (CStr soabi)"
      and s: "startswith soabi ''cpython-''"
    from py_split_cpython [OF s] obtain field rest
      where f: "py_split CHR ''-'' soabi = ''cpython'' # field # rest" by blast
    have "get_abi_tag env = Inr (Some (''cp'' @ field))"
      unfolding get_abi_tag_def Let_def c using s startswith_nonempty [OF s] by (simp add: f)
    with f show "\<exists>field rest. py_split CHR ''-'' soabi = ''cpython'' # field # rest
                    \<and> get_abi_tag env = Inr (Some (''cp'' @ field))" by blast
  qed
  have b: "get_config_var env ''SOABI'' = Some (CStr soabi) \<and> soabi \<noteq> []
        \<and> \<not> startswith soabi ''cpython-'' \<longrightarrow>
      get_abi_tag env =
        Inr (Some (py_replace CHR ''-'' CHR ''_'' (py_replace CHR ''.'' CHR ''_'' soabi)))"
    by (simp add: get_abi_tag_def Let_def)
  have c: "\<not> truthy (get_config_var env ''SOABI'') \<and> tags_interpreter_name env \<in> {''cp'', ''pp''}
        \<and> sys_maxunicode env \<noteq> None \<longrightarrow>
      get_abi_tag env =
        Inr (Some (tags_interpreter_name env @ tags_interpreter_version env
                   @ (if (case get_config_var env ''Py_DEBUG'' of
                            None \<Rightarrow> sys_has_gettotalrefcount env
                          | Some v \<Rightarrow> v = CInt 1)
                      then ''d'' else [])
                   @ (if version_lt (sys_version_info env) (3, 8)
                         \<and> (case get_config_var env ''WITH_PYMALLOC'' of
                               None \<Rightarrow> tags_interpreter_name env = ''cp''
                             | Some v \<Rightarrow> v = CInt 1)
                      then ''m'' else [])
                   @ (if version_lt (sys_version_info env) (3, 3)
                         \<and> (case get_config_var env ''Py_UNICODE_SIZE'' of
                               None \<Rightarrow> sys_maxunicode env = Some 0x10ffff
                             | Some v \<Rightarrow> v = CInt 4)
                      then ''u'' else [])))"
    unfolding get_abi_tag_def Let_def get_flag_def by simp
  have d: "\<not> truthy (get_config_var env ''SOABI'')
        \<and> \<not> (tags_interpreter_name env \<in> {''cp'', ''pp''} \<and> sys_maxunicode env \<noteq> None) \<longrightarrow>
      get_abi_tag env = Inr None"
    unfolding get_abi_tag_def Let_def by auto
  have e: "\<not> str_truthy abi \<and> get_abi_tag env = Inr None
        \<and> generic_tags env version platform impl abi = Inr (parts, log) \<longrightarrow>
      (\<exists>interpreter arches. parts = map (\<lambda>arch. (interpreter, ''none'', arch)) arches)"
    unfolding generic_tags_def Let_def
    by (auto split: sum.splits list.splits prod.splits)
  from a b c d e show ?thesis by blast
qed


lemma generic_tags_no_maxunicode:
  "generic_tags no_maxunicode_env (Some ''10'') (Some ''linux_i686'') (Some ''zz'') None =
     Inr ([(''zz10'', ''none'', ''linux_i686'')], [])"
  by code_simp

theorem get_abi_tag_resolution_witness:
  "get_abi_tag linux_env = Inr (Some ''cp38'')
   \<and> get_abi_tag pypy_env = Inr (Some ''pypy36_pp73'')
   \<and> get_abi_tag linux32_env = Inr (Some ''cp27mu'')
   \<and> get_abi_tag (linux_env \<lparr> tags_interpreter_name := ''jy'',
                              sysconfig_get_config_var := (\<lambda>var. None) \<rparr>) = Inr None
   \<and> (\<exists>interpreter arches.
         [(''zz10'', ''none'', ''linux_i686'')] = map (\<lambda>arch. (interpreter, ''none'', arch)) arches)"
proof -
  have s1: "get_config_var linux_env ''SOABI'' = Some (CStr ''cpython-38-x86_64-linux-gnu'')"
    by (simp add: get_config_var_def linux_env_def)
  have p1: "startswith ''cpython-38-x86_64-linux-gnu'' ''cpython-''"
    by (simp add: startswith_def)
  have sp: "py_split CHR ''-'' ''cpython-38-x86_64-linux-gnu''
            = [''cpython'', ''38'', ''x86_64'', ''linux'', ''gnu'']"
    by simp
  have 1: "get_abi_tag linux_env = Inr (Some ''cp38'')"
    using get_abi_tag_resolution [where env = linux_env
        and soabi = "''cpython-38-x86_64-linux-gnu''", THEN conjunct1] s1 p1
    unfolding sp by simp
  have s2: "get_config_var pypy_env ''SOABI'' = Some (CStr ''pypy36-pp73'')"
    by (simp add: get_config_var_def pypy_env_def linux_env_def)
  have 2: "get_abi_tag pypy_env = Inr (Some ''pypy36_pp73'')"
    using get_abi_tag_resolution [where env = pypy_env and soabi = "''pypy36-pp73''",
        THEN conjunct2, THEN conjunct1] s2
    by (simp add: startswith_def py_replace_def)
  have 3: "get_abi_tag linux32_env = Inr (Some ''cp27mu'')"
    using get_abi_tag_resolution [where env = linux32_env,
        THEN conjunct2, THEN conjunct2, THEN conjunct1]
    by (simp add: get_config_var_def linux32_env_def linux_env_def version_lt_def)
  have 4: "get_abi_tag (linux_env \<lparr> tags_interpreter_name := ''jy'',
                              sysconfig_get_config_var := (\<lambda>var. None) \<rparr>) = Inr None"
    using get_abi_tag_resolution [where env = "linux_env \<lparr> tags_interpreter_name := ''jy'',
                              sysconfig_get_config_var := (\<lambda>var. None) \<rparr>",
        THEN conjunct2, THEN conjunct2, THEN conjunct2, THEN conjunct1]
    by (simp add: get_config_var_def)
  have n: "get_abi_tag no_maxunicode_env = Inr None"
    by (simp add: get_abi_tag_def get_config_var_def no_maxunicode_env_def linux32_env_def
        linux_env_def)
  have 5: "\<exists>interpreter arches.
         [(''zz10'', ''none'', ''linux_i686'')] = map (\<lambda>arch. (interpreter, ''none'', arch)) arches"
    using get_abi_tag_resolution [where env = no_maxunicode_env and abi = None
        and version = "Some ''10''" and platform = "Some ''linux_i686''" and impl = "Some ''zz''"
        and parts = "[(''zz10'', ''none'', ''linux_i686'')]" and log = "[]",
        THEN conjunct2, THEN conjunct2, THEN conjunct2, THEN conjunct2]
      n generic_tags_no_maxunicode
    by simp
  from 1 2 3 4 5 show ?thesis by blast
qed

text \<open>
  Claim C9 as stated fails where the family is \<^verbatim>\<open>cp\<close>, \<^verbatim>\<open>SOABI\<close> is absent and \<^verbatim>\<open>sys\<close> has no
  \<^verbatim>\<open>maxunicode\<close>: the source guards the synthesis by \<^verbatim>\<open>hasattr(sys, 'maxunicode')\<close>, and no
  ABI is resolved.
\<close>

theorem get_abi_tag_resolution_counterexample:
  "tags_interpreter_name no_maxunicode_env = ''cp''
   \<and> get_config_var no_maxunicode_env ''SOABI'' = None
   \<and> get_abi_tag no_maxunicode_env = Inr None"
  by (simp add: get_abi_tag_def get_config_var_def no_maxunicode_env_def linux32_env_def
      linux_env_def)

subsection \<open>Compatibility expansion\<close>

lemma match_tail_digits:
  assumes "match_tail r = Some (major, minor, actual_arch)"
  shows "major \<noteq> [] \<and> (\<forall>c\<in>set major. is_digit c) \<and> minor \<noteq> [] \<and> (\<forall>c\<in>set minor. is_digit c)"
  using assms
  by (auto simp: match_tail_def split: list.splits if_splits dest: set_takeWhileD)

lemma match_from_digits:
  assumes "match_from i s = Some (name, major, minor, actual_arch)"
  shows "major \<noteq> [] \<and> (\<forall>c\<in>set major. is_digit c) \<and> minor \<noteq> [] \<and> (\<forall>c\<in>set minor. is_digit c)"
  using assms
proof (induction i)
  case 0
  then show ?case by simp
next
  case (Suc i)
  show ?case
  proof (cases "match_tail (drop (Suc i) s)")
    case None
    with Suc show ?thesis by simp
  next
    case (Some t)
    with Suc.prems have "match_tail (drop (Suc i) s) = Some (major, minor, actual_arch)"
      by (cases t) auto
    then show ?thesis by (rule match_tail_digits)
  qed
qed

lemma mac_platforms_matched:
  assumes "osx_arch_pat_match arch = Some (name, major, minor, actual_arch)"
  shows "mac_platforms env arch =
           Inr (map (\<lambda>a. name @ ''_'' @ drop (length ''macosx_'') a)
                    (tags_mac_platforms env (int (decimal_value major), int (decimal_value minor))
                       actual_arch))"
proof -
  from assms have d: "major \<noteq> [] \<and> (\<forall>c\<in>set major. is_digit c) \<and> minor \<noteq> [] \<and> (\<forall>c\<in>set minor. is_digit c)"
    unfolding osx_arch_pat_match_def by (rule match_from_digits)
  then have "py_int major = Inr (int (decimal_value major))"
    and "py_int minor = Inr (int (decimal_value minor))"
    by (simp_all add: py_int_digits)
  then show ?thesis using assms by (simp add: mac_platforms_def)
qed

lemma mac_platforms_returns: "\<exists>arches. mac_platforms env arch = Inr arches"
proof (cases "osx_arch_pat_match arch")
  case None
  then show ?thesis by (simp add: mac_platforms_def)
next
  case (Some m)
  then show ?thesis using mac_platforms_matched [of arch] by (cases m) auto
qed

lemma custom_manylinux_platforms_self: "arch \<in> set (custom_manylinux_platforms arch)"
  by (cases "py_partition CHR ''_'' arch") (simp add: custom_manylinux_platforms_def)

lemma get_custom_platforms_unqualified:
  assumes nm: "\<not> startswith arch ''macosx''"
    and part: "py_partition CHR ''_'' arch = (arch_prefix, arch_sep, arch_suffix)"
    and np: "arch_prefix \<notin> {''manylinux2014'', ''manylinux2010''}"
    and r: "get_custom_platforms env arch None = Inr (arches, log)"
  shows "\<exists>c2014 c2010 c1 log2014 log2010 log1.
          is_manylinux2014_compatible env = Inr (c2014, log2014)
          \<and> is_manylinux2010_compatible env = Inr (c2010, log2010)
          \<and> is_manylinux1_compatible env = Inr (c1, log1)
          \<and> arches =
              ((if c2014 then [''manylinux2014'' @ arch_sep @ arch_suffix] else [])
               @ (if c2010 then [''manylinux2010'' @ arch_sep @ arch_suffix] else [])
               @ (if c1 then [''manylinux1'' @ arch_sep @ arch_suffix] else [])) @ [arch]
          \<and> log = log2014 @ log2010 @ log1"
proof -
  from np have np': "arch_prefix \<noteq> ''manylinux2014''" "arch_prefix \<noteq> ''manylinux2010''"
    by simp_all
  obtain c2014 log2014 where 1: "is_manylinux2014_compatible env = Inr (c2014, log2014)"
    using r nm unfolding get_custom_platforms_def part
    by (cases "is_manylinux2014_compatible env") (auto simp: np')
  obtain c2010 log2010 where 2: "is_manylinux2010_compatible env = Inr (c2010, log2010)"
    using r nm unfolding get_custom_platforms_def part 1
    by (cases "is_manylinux2010_compatible env") (auto simp: np')
  obtain c1 log1 where 3: "is_manylinux1_compatible env = Inr (c1, log1)"
    using r nm unfolding get_custom_platforms_def part 1 2
    by (cases "is_manylinux1_compatible env") (auto simp: np')
  from r nm have "arches =
              ((if c2014 then [''manylinux2014'' @ arch_sep @ arch_suffix] else [])
               @ (if c2010 then [''manylinux2010'' @ arch_sep @ arch_suffix] else [])
               @ (if c1 then [''manylinux1'' @ arch_sep @ arch_suffix] else [])) @ [arch]
          \<and> log = log2014 @ log2010 @ log1"
    unfolding get_custom_platforms_def part 1 2 3 by (simp add: np')
  with 1 2 3 show ?thesis by blast
qed

lemma get_custom_platforms_self:
  assumes "\<not> (startswith arch ''macosx'' \<and> osx_arch_pat_match arch \<noteq> None)"
    and r: "get_custom_platforms env arch platform = Inr (arches, log)"
  shows "arch \<in> set arches"
proof -
  obtain pre sep suf where part: "py_partition CHR ''_'' arch = (pre, sep, suf)"
    by (cases "py_partition CHR ''_'' arch") auto
  show ?thesis
  proof (cases "startswith arch ''macosx''")
    case True
    with assms(1) have "osx_arch_pat_match arch = None" by blast
    with True r show ?thesis
      unfolding get_custom_platforms_def part by (auto simp: mac_platforms_def)
  next
    case nm: False
    show ?thesis
    proof (cases "pre \<in> {''manylinux2014'', ''manylinux2010''}")
      case True
      with nm r have "arches = custom_manylinux_platforms arch"
        unfolding get_custom_platforms_def part by auto
      then show ?thesis by (simp add: custom_manylinux_platforms_self)
    next
      case np: False
      show ?thesis
      proof (cases platform)
        case None
        from get_custom_platforms_unqualified [OF nm part np r [unfolded None]]
        show ?thesis by auto
      next
        case (Some p)
        with nm np r show ?thesis
          unfolding get_custom_platforms_def part by auto
      qed
    qed
  qed
qed

lemma get_custom_platforms_mac:
  assumes "startswith arch ''macosx''"
  shows "get_custom_platforms env arch platform =
           (case mac_platforms env arch of Inl e \<Rightarrow> Inl e | Inr arches \<Rightarrow> Inr (arches, []))"
  using assms by (simp add: get_custom_platforms_def split: prod.split)

text \<open>
  Claim C7, amended. Unless the platform string starts with \<^verbatim>\<open>macosx\<close> and matches the
  macOS pattern, every expansion that returns includes the input itself. A string
  that starts with \<^verbatim>\<open>macosx\<close> and matches is replaced by the list of the macOS
  generator for the parsed numbers and architecture, each entry prefixed again with
  the parsed name. In the unqualified path (no override, neither macOS nor a named
  tier) the input is the last element, and before it come the strings of the
  compatible tiers in the order 2014, 2010, 1. A string that starts with \<^verbatim>\<open>macosx\<close>
  and does not match the pattern is returned unchanged, as a singleton.
\<close>

theorem get_custom_platforms_expansion:
  "(\<not> (startswith arch ''macosx'' \<and> osx_arch_pat_match arch \<noteq> None)
      \<and> get_custom_platforms env arch platform = Inr (arches, log) \<longrightarrow>
    arch \<in> set arches)
   \<and> (startswith arch ''macosx''
      \<and> osx_arch_pat_match arch = Some (name, major, minor, actual_arch) \<longrightarrow>
    get_custom_platforms env arch platform =
      Inr (map (\<lambda>a. name @ ''_'' @ drop (length ''macosx_'') a)
               (tags_mac_platforms env (int (decimal_value major), int (decimal_value minor))
                  actual_arch), []))
   \<and> (\<not> startswith arch ''macosx''
      \<and> py_partition CHR ''_'' arch = (arch_prefix, arch_sep, arch_suffix)
      \<and> arch_prefix \<notin> {''manylinux2014'', ''manylinux2010''}
      \<and> get_custom_platforms env arch None = Inr (arches, log) \<longrightarrow>
    last arches = arch
    \<and> (\<exists>c2014 c2010 c1 log2014 log2010 log1.
          is_manylinux2014_compatible env = Inr (c2014, log2014)
          \<and> is_manylinux2010_compatible env = Inr (c2010, log2010)
          \<and> is_manylinux1_compatible env = Inr (c1, log1)
          \<and> butlast arches =
              (if c2014 then [''manylinux2014'' @ arch_sep @ arch_suffix] else [])
              @ (if c2010 then [''manylinux2010'' @ arch_sep @ arch_suffix] else [])
              @ (if c1 then [''manylinux1'' @ arch_sep @ arch_suffix] else [])))
   \<and> (startswith arch ''macosx'' \<and> osx_arch_pat_match arch = None \<longrightarrow>
    get_custom_platforms env arch platform = Inr ([arch], []))"
proof -
  have a: "\<not> (startswith arch ''macosx'' \<and> osx_arch_pat_match arch \<noteq> None)
      \<and> get_custom_platforms env arch platform = Inr (arches, log) \<longrightarrow> arch \<in> set arches"
    using get_custom_platforms_self by blast
  have b: "startswith arch ''macosx''
      \<and> osx_arch_pat_match arch = Some (name, major, minor, actual_arch) \<longrightarrow>
    get_custom_platforms env arch platform =
      Inr (map (\<lambda>a. name @ ''_'' @ drop (length ''macosx_'') a)
               (tags_mac_platforms env (int (decimal_value major), int (decimal_value minor))
                  actual_arch), [])"
    by (simp add: get_custom_platforms_mac mac_platforms_matched)
  have c: "\<not> startswith arch ''macosx''
      \<and> py_partition CHR ''_'' arch = (arch_prefix, arch_sep, arch_suffix)
      \<and> arch_prefix \<notin> {''manylinux2014'', ''manylinux2010''}
      \<and> get_custom_platforms env arch None = Inr (arches, log) \<longrightarrow>
    last arches = arch
    \<and> (\<exists>c2014 c2010 c1 log2014 log2010 log1.
          is_manylinux2014_compatible env = Inr (c2014, log2014)
          \<and> is_manylinux2010_compatible env = Inr (c2010, log2010)
          \<and> is_manylinux1_compatible env = Inr (c1, log1)
          \<and> butlast arches =
              (if c2014 then [''manylinux2014'' @ arch_sep @ arch_suffix] else [])
              @ (if c2010 then [''manylinux2010'' @ arch_sep @ arch_suffix] else [])
              @ (if c1 then [''manylinux1'' @ arch_sep @ arch_suffix] else []))"
  proof (intro impI, elim conjE)
    assume nm: "\<not> startswith arch ''macosx''"
      and part: "py_partition CHR ''_'' arch = (arch_prefix, arch_sep, arch_suffix)"
      and np: "arch_prefix \<notin> {''manylinux2014'', ''manylinux2010''}"
      and r: "get_custom_platforms env arch None = Inr (arches, log)"
    from get_custom_platforms_unqualified [OF nm part np r]
    obtain c2014 c2010 c1 log2014 log2010 log1 where
      p: "is_manylinux2014_compatible env = Inr (c2014, log2014)"
         "is_manylinux2010_compatible env = Inr (c2010, log2010)"
         "is_manylinux1_compatible env = Inr (c1, log1)"
      and e: "arches =
              ((if c2014 then [''manylinux2014'' @ arch_sep @ arch_suffix] else [])
               @ (if c2010 then [''manylinux2010'' @ arch_sep @ arch_suffix] else [])
               @ (if c1 then [''manylinux1'' @ arch_sep @ arch_suffix] else [])) @ [arch]"
      by blast
    have l: "last arches = arch" unfolding e by (rule last_snoc)
    have bl: "butlast arches =
              (if c2014 then [''manylinux2014'' @ arch_sep @ arch_suffix] else [])
              @ (if c2010 then [''manylinux2010'' @ arch_sep @ arch_suffix] else [])
              @ (if c1 then [''manylinux1'' @ arch_sep @ arch_suffix] else [])"
      unfolding e by (rule butlast_snoc)
    from l bl p show "last arches = arch
    \<and> (\<exists>c2014 c2010 c1 log2014 log2010 log1.
          is_manylinux2014_compatible env = Inr (c2014, log2014)
          \<and> is_manylinux2010_compatible env = Inr (c2010, log2010)
          \<and> is_manylinux1_compatible env = Inr (c1, log1)
          \<and> butlast arches =
              (if c2014 then [''manylinux2014'' @ arch_sep @ arch_suffix] else [])
              @ (if c2010 then [''manylinux2010'' @ arch_sep @ arch_suffix] else [])
              @ (if c1 then [''manylinux1'' @ arch_sep @ arch_suffix] else []))"
      by blast
  qed
  have d: "startswith arch ''macosx'' \<and> osx_arch_pat_match arch = None \<longrightarrow>
    get_custom_platforms env arch platform = Inr ([arch], [])"
    by (simp add: get_custom_platforms_mac mac_platforms_def)
  from a b c d show ?thesis by blast
qed

lemma get_custom_platforms_linux_env:
  "get_custom_platforms linux_env ''linux_x86_64'' None =
     Inr ([''manylinux2014_x86_64'', ''manylinux2010_x86_64'', ''manylinux1_x86_64'',
           ''linux_x86_64''],
          [GlibcCheck 2 17, GlibcCheck 2 12, GlibcCheck 2 5])"
  by code_simp

theorem get_custom_platforms_expansion_witness:
  "get_custom_platforms linux_env ''linux_x86_64'' None =
     Inr ([''manylinux2014_x86_64'', ''manylinux2010_x86_64'', ''manylinux1_x86_64'',
           ''linux_x86_64''],
          [GlibcCheck 2 17, GlibcCheck 2 12, GlibcCheck 2 5])
   \<and> ''linux_x86_64'' \<in> set [''manylinux2014_x86_64'', ''manylinux2010_x86_64'',
                               ''manylinux1_x86_64'', ''linux_x86_64'']
   \<and> last [''manylinux2014_x86_64'', ''manylinux2010_x86_64'', ''manylinux1_x86_64'',
            ''linux_x86_64''] = ''linux_x86_64''
   \<and> get_custom_platforms linux_env ''macosx_10_2_ppc'' (Some ''macosx_10_2_ppc'') =
       Inr ([''macosx_10_2_ppc'', ''macosx_10_1_ppc'', ''macosx_10_0_ppc''], [])
   \<and> get_custom_platforms linux_env ''macosx_foo'' (Some ''macosx_foo'') =
       Inr ([''macosx_foo''], [])"
proof -
  note r = get_custom_platforms_linux_env
  have nm: "\<not> (startswith ''linux_x86_64'' ''macosx'' \<and> osx_arch_pat_match ''linux_x86_64'' \<noteq> None)"
    by (simp add: startswith_def)
  have 1: "''linux_x86_64'' \<in> set [''manylinux2014_x86_64'', ''manylinux2010_x86_64'',
                               ''manylinux1_x86_64'', ''linux_x86_64'']"
    using get_custom_platforms_expansion [where env = linux_env and arch = "''linux_x86_64''"
        and platform = None, THEN conjunct1, rule_format, OF conjI, OF nm r] .
  have c: "\<not> startswith ''linux_x86_64'' ''macosx''
      \<and> py_partition CHR ''_'' ''linux_x86_64'' = (''linux'', ''_'', ''x86_64'')
      \<and> ''linux'' \<notin> {''manylinux2014'', ''manylinux2010''}
      \<and> get_custom_platforms linux_env ''linux_x86_64'' None =
          Inr ([''manylinux2014_x86_64'', ''manylinux2010_x86_64'', ''manylinux1_x86_64'',
                ''linux_x86_64''],
               [GlibcCheck 2 17, GlibcCheck 2 12, GlibcCheck 2 5])"
    using r by (simp add: startswith_def py_partition_def)
  have 2: "last [''manylinux2014_x86_64'', ''manylinux2010_x86_64'', ''manylinux1_x86_64'',
            ''linux_x86_64''] = ''linux_x86_64''"
    using get_custom_platforms_expansion [where env = linux_env and arch = "''linux_x86_64''",
        THEN conjunct2, THEN conjunct2, THEN conjunct1, rule_format, OF c]
    by blast
  have m: "startswith ''macosx_10_2_ppc'' ''macosx''
      \<and> osx_arch_pat_match ''macosx_10_2_ppc'' = Some (''macosx'', ''10'', ''2'', ''ppc'')"
    by code_simp
  have g: "map (\<lambda>a. ''macosx'' @ ''_'' @ drop (length ''macosx_'') a)
               (tags_mac_platforms linux_env (int (decimal_value ''10''), int (decimal_value ''2''))
                  ''ppc'')
           = [''macosx_10_2_ppc'', ''macosx_10_1_ppc'', ''macosx_10_0_ppc'']"
    by code_simp
  have 3: "get_custom_platforms linux_env ''macosx_10_2_ppc'' (Some ''macosx_10_2_ppc'') =
       Inr ([''macosx_10_2_ppc'', ''macosx_10_1_ppc'', ''macosx_10_0_ppc''], [])"
    using get_custom_platforms_expansion [where env = linux_env and arch = "''macosx_10_2_ppc''"
        and platform = "Some ''macosx_10_2_ppc''",
        THEN conjunct2, THEN conjunct1, rule_format, OF m]
    unfolding g .
  have f: "startswith ''macosx_foo'' ''macosx'' \<and> osx_arch_pat_match ''macosx_foo'' = None"
    by code_simp
  have 4: "get_custom_platforms linux_env ''macosx_foo'' (Some ''macosx_foo'') =
       Inr ([''macosx_foo''], [])"
    using get_custom_platforms_expansion [where env = linux_env and arch = "''macosx_foo''",
        THEN conjunct2, THEN conjunct2, THEN conjunct2, rule_format, OF f] .
  from r 1 2 3 4 show ?thesis by blast
qed

text \<open>
  Claim C7 as stated fails on a macOS string whose numbers have a leading zero: the
  pattern matches, \<^verbatim>\<open>int\<close> reads \<^verbatim>\<open>010\<close> as 10, and the list built from the generator
  holds \<^verbatim>\<open>macosx_10_9_x86_64\<close> and older baselines, not the input.
\<close>

theorem get_custom_platforms_expansion_counterexample:
  "get_custom_platforms linux_env ''macosx_010_9_x86_64'' (Some ''macosx_010_9_x86_64'') =
     Inr ([''macosx_10_9_x86_64'', ''macosx_10_8_x86_64'', ''macosx_10_7_x86_64'',
           ''macosx_10_6_x86_64'', ''macosx_10_5_x86_64'', ''macosx_10_4_x86_64'',
           ''macosx_10_3_x86_64'', ''macosx_10_2_x86_64'', ''macosx_10_1_x86_64'',
           ''macosx_10_0_x86_64''], [])
   \<and> ''macosx_010_9_x86_64'' \<notin>
       set [''macosx_10_9_x86_64'', ''macosx_10_8_x86_64'', ''macosx_10_7_x86_64'',
            ''macosx_10_6_x86_64'', ''macosx_10_5_x86_64'', ''macosx_10_4_x86_64'',
            ''macosx_10_3_x86_64'', ''macosx_10_2_x86_64'', ''macosx_10_1_x86_64'',
            ''macosx_10_0_x86_64'']"
  by code_simp

subsection \<open>Where the entry point can raise\<close>

lemma py_split_no_sep: "sep \<notin> set s \<Longrightarrow> py_split sep s = [s]"
  by (induction s) auto

lemma py_split_with_sep:
  "sep \<in> set s \<Longrightarrow> \<exists>v0 v1 rest. py_split sep s = v0 # v1 # rest"
proof (induction s)
  case Nil
  then show ?case by simp
next
  case (Cons c cs)
  show ?case
  proof (cases "c = sep")
    case True
    obtain w ws where "py_split sep cs = w # ws"
      using py_split_nonempty [of sep cs] by (cases "py_split sep cs") auto
    with True show ?thesis by simp
  next
    case False
    with Cons.prems have "sep \<in> set cs" by simp
    from Cons.IH [OF this] obtain v0 v1 rest where "py_split sep cs = v0 # v1 # rest" by blast
    with False show ?thesis by simp
  qed
qed

lemma get_platform_returns:
  assumes "sys_platform env = ''darwin'' \<longrightarrow> CHR ''.'' \<in> set (fst (platform_mac_ver env))"
  shows "\<exists>p. get_platform env = Inr p"
proof (cases "sys_platform env = ''darwin''")
  case False
  then show ?thesis by (simp add: get_platform_def Let_def)
next
  case True
  obtain release machine where m: "platform_mac_ver env = (release, machine)"
    by (cases "platform_mac_ver env") auto
  with True assms have "CHR ''.'' \<in> set release" by simp
  from py_split_with_sep [OF this] obtain v0 v1 rest
    where "py_split CHR ''.'' release = v0 # v1 # rest" by blast
  with True m show ?thesis by (simp add: get_platform_def Let_def)
qed

lemma is_manylinux1_compatible_returns:
  "get_platform env = Inr p \<Longrightarrow> \<exists>r. is_manylinux1_compatible env = Inr r"
  by (auto simp: is_manylinux1_compatible_def have_compatible_glibc_def split: option.split)

lemma is_manylinux2010_compatible_returns:
  "get_platform env = Inr p \<Longrightarrow> \<exists>r. is_manylinux2010_compatible env = Inr r"
  by (auto simp: is_manylinux2010_compatible_def have_compatible_glibc_def split: option.split)

lemma is_manylinux2014_compatible_returns:
  assumes "get_platform env = Inr p"
  shows "\<exists>r. is_manylinux2014_compatible env = Inr r"
proof -
  from is_linux_armhf_returns [OF assms] obtain b where "is_linux_armhf env = Inr b" ..
  with assms show ?thesis
    by (auto simp: is_manylinux2014_compatible_def have_compatible_glibc_def split: option.split)
qed

lemma get_custom_platforms_returns:
  assumes "platform = None \<longrightarrow> (\<exists>p. get_platform env = Inr p)"
  shows "\<exists>r. get_custom_platforms env arch platform = Inr r"
proof -
  obtain pre sep suf where part: "py_partition CHR ''_'' arch = (pre, sep, suf)"
    by (cases "py_partition CHR ''_'' arch") auto
  show ?thesis
  proof (cases "startswith arch ''macosx''")
    case True
    from mac_platforms_returns obtain arches where "mac_platforms env arch = Inr arches" ..
    with True show ?thesis by (simp add: get_custom_platforms_mac)
  next
    case nm: False
    show ?thesis
    proof (cases "platform = None \<and> pre \<notin> {''manylinux2014'', ''manylinux2010''}")
      case False
      with nm show ?thesis
        unfolding get_custom_platforms_def part by auto
    next
      case True
      with assms obtain p where p: "get_platform env = Inr p" by blast
      from is_manylinux2014_compatible_returns [OF p] obtain c2014 log2014
        where 1: "is_manylinux2014_compatible env = Inr (c2014, log2014)" by fastforce
      from is_manylinux2010_compatible_returns [OF p] obtain c2010 log2010
        where 2: "is_manylinux2010_compatible env = Inr (c2010, log2010)" by fastforce
      from is_manylinux1_compatible_returns [OF p] obtain c1 log1
        where 3: "is_manylinux1_compatible env = Inr (c1, log1)" by fastforce
      from True nm show ?thesis
        unfolding get_custom_platforms_def part 1 2 3 by simp
    qed
  qed
qed

lemma get_abi_tag_returns:
  assumes "\<forall>n. n \<noteq> 0 \<longrightarrow> get_config_var env ''SOABI'' \<noteq> Some (CInt n)"
  shows "\<exists>a. get_abi_tag env = Inr a"
proof (cases "get_config_var env ''SOABI''")
  case None
  then show ?thesis by (simp add: get_abi_tag_def Let_def)
next
  case (Some val)
  show ?thesis
  proof (cases val)
    case (CInt n)
    with Some assms have "n = 0" by auto
    with Some CInt show ?thesis by (simp add: get_abi_tag_def Let_def)
  next
    case (CStr s)
    show ?thesis
    proof (cases "startswith s ''cpython-''")
      case True
      from py_split_cpython [OF True] obtain field rest
        where "py_split CHR ''-'' s = ''cpython'' # field # rest" by blast
      with Some CStr True startswith_nonempty [OF True] show ?thesis
        by (simp add: get_abi_tag_def Let_def)
    next
      case False
      with Some CStr show ?thesis by (simp add: get_abi_tag_def Let_def)
    qed
  qed
qed

lemma versions_returns:
  assumes "tags_interpreter_name env = ''pp'' \<longrightarrow> sys_pypy_version_info env \<noteq> None"
  shows "\<exists>version_info current_version older.
           get_impl_version_info env = Inr version_info
           \<and> get_all_minor_versions_as_strings version_info = Inr (current_version # older)"
proof -
  have "\<exists>version_info. get_impl_version_info env = Inr version_info \<and> version_info \<noteq> []"
  proof (cases "tags_interpreter_name env = ''pp''")
    case True
    with assms obtain pypy_major pypy_minor
      where "sys_pypy_version_info env = Some (pypy_major, pypy_minor)" by fastforce
    with True show ?thesis by (simp add: get_impl_version_info_def)
  next
    case False
    then show ?thesis by (simp add: get_impl_version_info_def)
  qed
  then obtain version_info
    where v: "get_impl_version_info env = Inr version_info" and n: "version_info \<noteq> []"
    by blast
  from n obtain x xs where c: "version_info = x # xs" by (cases version_info) auto
  have "\<exists>current_version older.
          map (\<lambda>minor. concat (map py_str (butlast version_info @ [minor])))
              (rev [0 ..< Suc (last version_info)]) = current_version # older"
    by simp
  then show ?thesis using v c by (auto simp: get_all_minor_versions_as_strings_def)
qed

lemma get_python_version_returns:
  assumes "v \<noteq> []" and "\<forall>c\<in>set v. is_digit c"
  shows "\<exists>pv. get_python_version v = Inr pv"
proof -
  from assms obtain c cs where v: "v = c # cs" by (cases v) auto
  with assms have c: "is_digit c" by simp
  show ?thesis
  proof (cases cs)
    case Nil
    with v c show ?thesis by (simp add: get_python_version_def py_int_single)
  next
    case (Cons d ds)
    have "py_int cs = Inr (int (decimal_value cs))"
      using assms(2) v Cons by (intro py_int_digits) auto
    with v c Cons show ?thesis by (simp add: get_python_version_def py_int_single)
  qed
qed

lemma generic_tags_returns:
  assumes "version = None \<and> tags_interpreter_name env = ''pp'' \<longrightarrow> sys_pypy_version_info env \<noteq> None"
    and "\<not> str_truthy abi \<longrightarrow> (\<forall>n. n \<noteq> 0 \<longrightarrow> get_config_var env ''SOABI'' \<noteq> Some (CInt n))"
    and "\<not> str_truthy platform \<and> sys_platform env = ''darwin''
           \<longrightarrow> CHR ''.'' \<in> set (fst (platform_mac_ver env))"
  shows "\<exists>r. generic_tags env version platform impl abi = Inr r"
proof -
  have 1: "\<exists>current_version older.
             (case version of
                None \<Rightarrow> (case get_impl_version_info env of
                           Inl e \<Rightarrow> Inl e
                         | Inr version_info \<Rightarrow> get_all_minor_versions_as_strings version_info)
              | Some v \<Rightarrow> Inr [v]) = Inr (current_version # older)"
  proof (cases version)
    case None
    with assms(1) versions_returns [of env] show ?thesis by auto
  next
    case (Some v)
    then show ?thesis by simp
  qed
  have 2: "\<exists>a. (if str_truthy abi then Inr abi else get_abi_tag env) = Inr a"
    using assms(2) get_abi_tag_returns [of env] by auto
  have 3: "\<exists>arch. (case platform of
                     None \<Rightarrow> get_platform env
                   | Some p \<Rightarrow> if p \<noteq> [] then Inr p else get_platform env) = Inr arch
                 \<and> (platform = None \<longrightarrow> get_platform env = Inr arch)"
  proof (cases "str_truthy platform")
    case True
    then show ?thesis by (cases platform) auto
  next
    case False
    with assms(3) get_platform_returns [of env] obtain p where "get_platform env = Inr p"
      by auto
    with False show ?thesis by (cases platform) auto
  qed
  from 1 obtain current_version older where v: "(case version of
                None \<Rightarrow> (case get_impl_version_info env of
                           Inl e \<Rightarrow> Inl e
                         | Inr version_info \<Rightarrow> get_all_minor_versions_as_strings version_info)
              | Some v \<Rightarrow> Inr [v]) = Inr (current_version # older)" by blast
  from 2 obtain a where a: "(if str_truthy abi then Inr abi else get_abi_tag env) = Inr a"
    by blast
  from 3 obtain arch where p: "(case platform of
                     None \<Rightarrow> get_platform env
                   | Some p \<Rightarrow> if p \<noteq> [] then Inr p else get_platform env) = Inr arch"
    and pn: "platform = None \<longrightarrow> get_platform env = Inr arch" by blast
  from get_custom_platforms_returns [of platform env arch] pn
  obtain arches log where g: "get_custom_platforms env arch platform = Inr (arches, log)"
    by fastforce
  show ?thesis
    unfolding generic_tags_def Let_def by (simp add: v a p g)
qed

text \<open>
  Claim C5, amended. \<^verbatim>\<open>get_supported\<close> returns a list, and raises nothing, whenever
  the version override is absent or a non-empty string of decimal digits and, unless
  the effective implementation is \<^verbatim>\<open>cp\<close>, the queries of the generic path succeed:
  \<^verbatim>\<open>sys.pypy_version_info\<close> exists on \<^verbatim>\<open>pp\<close> when no version is given, \<^verbatim>\<open>SOABI\<close> is not a
  non-zero number when no ABI is given, and on macOS the release has a dot when no
  platform is given. The external generators are taken to return.
\<close>

theorem get_supported_returns:
  assumes "version = None \<or> (\<exists>v. version = Some v \<and> v \<noteq> [] \<and> (\<forall>c\<in>set v. is_digit c))"
    and "(case impl of
            None \<Rightarrow> tags_interpreter_name env
          | Some i \<Rightarrow> if i \<noteq> [] then i else tags_interpreter_name env) = ''cp''
         \<or> ((version = None \<and> tags_interpreter_name env = ''pp''
                \<longrightarrow> sys_pypy_version_info env \<noteq> None)
             \<and> (\<not> str_truthy abi
                \<longrightarrow> (\<forall>n. n \<noteq> 0 \<longrightarrow> get_config_var env ''SOABI'' \<noteq> Some (CInt n)))
             \<and> (\<not> str_truthy platform \<and> sys_platform env = ''darwin''
                \<longrightarrow> CHR ''.'' \<in> set (fst (platform_mac_ver env))))"
  shows "\<exists>tags log. get_supported env version platform impl abi = Inr (tags, log)"
proof -
  have "\<exists>python_version.
          (case version of
             None \<Rightarrow> Inr None
           | Some v \<Rightarrow> (case get_python_version v of
                          Inl e \<Rightarrow> Inl e
                        | Inr pv \<Rightarrow> Inr (Some pv))) = Inr python_version"
  proof (cases version)
    case None
    then show ?thesis by simp
  next
    case (Some v)
    with assms(1) get_python_version_returns [of v] obtain pv
      where "get_python_version v = Inr pv" by auto
    with Some show ?thesis by simp
  qed
  then obtain python_version where v: "(case version of
             None \<Rightarrow> Inr None
           | Some v \<Rightarrow> (case get_python_version v of
                          Inl e \<Rightarrow> Inl e
                        | Inr pv \<Rightarrow> Inr (Some pv))) = Inr python_version" by blast
  have "\<exists>platforms log1.
          (case platform of
             None \<Rightarrow> Inr (None, [])
           | Some p \<Rightarrow> (case get_custom_platforms env p (Some p) of
                          Inl e \<Rightarrow> Inl e
                        | Inr (arches, log) \<Rightarrow> Inr (Some arches, log))) = Inr (platforms, log1)"
  proof (cases platform)
    case None
    then show ?thesis by simp
  next
    case (Some p)
    from get_custom_platforms_returns [of "Some p" env p]
    obtain arches log where "get_custom_platforms env p (Some p) = Inr (arches, log)"
      by fastforce
    with Some show ?thesis by simp
  qed
  then obtain platforms log1 where p: "(case platform of
             None \<Rightarrow> Inr (None, [])
           | Some p \<Rightarrow> (case get_custom_platforms env p (Some p) of
                          Inl e \<Rightarrow> Inl e
                        | Inr (arches, log) \<Rightarrow> Inr (Some arches, log))) = Inr (platforms, log1)"
    by blast
  have "\<exists>r. supported_list env version platform impl abi = Inr r"
  proof (cases "(case impl of
            None \<Rightarrow> tags_interpreter_name env
          | Some i \<Rightarrow> if i \<noteq> [] then i else tags_interpreter_name env) = ''cp''")
    case True
    show ?thesis
      unfolding supported_list_def Let_def by (simp add: v p True)
  next
    case False
    with assms(2) generic_tags_returns [of version env abi platform impl]
    obtain parts log2 where "generic_tags env version platform impl abi = Inr (parts, log2)"
      by fastforce
    with False show ?thesis
      unfolding supported_list_def Let_def by (simp add: v p)
  qed
  then show ?thesis by (auto simp: get_supported_def)
qed

theorem get_supported_returns_witness:
  "(\<exists>tags log. get_supported linux_env (Some ''38'') None None None = Inr (tags, log))
   \<and> (\<exists>tags log. get_supported linux32_env None None (Some ''zz'') None = Inr (tags, log))
   \<and> (\<exists>tags log. get_supported pypy_env None (Some ''macosx_10_9_x86_64'') None (Some ''pp73'')
                    = Inr (tags, log))"
proof -
  have 1: "\<exists>tags log. get_supported linux_env (Some ''38'') None None None = Inr (tags, log)"
    by (rule get_supported_returns) (simp_all add: is_digit_def linux_env_def)
  have 2: "\<exists>tags log. get_supported linux32_env None None (Some ''zz'') None = Inr (tags, log)"
    by (rule get_supported_returns)
       (simp_all add: linux32_env_def linux_env_def get_config_var_def)
  have 3: "\<exists>tags log. get_supported pypy_env None (Some ''macosx_10_9_x86_64'') None (Some ''pp73'')
                    = Inr (tags, log)"
    by (rule get_supported_returns)
       (simp_all add: pypy_env_def linux_env_def get_config_var_def)
  from 1 2 3 show ?thesis by blast
qed

text \<open>
  Claim C5 as stated fails on a version override that is empty or does not start
  with a digit: \<^verbatim>\<open>_get_python_version\<close> indexes and converts it without a guard.
\<close>

theorem get_supported_returns_counterexample:
  "get_supported linux_env (Some []) None None None = Inl IndexError
   \<and> get_supported linux_env (Some ''py'') None None None = Inl ValueError"
  by code_simp

subsection \<open>The generic path for an unknown family\<close>

lemma get_python_version_10: "get_python_version ''10'' = Inr [1, 0]"
  by code_simp

lemma generic_tags_result:
  assumes "generic_tags env (Some v) platform (Some i) None = Inr (parts, log)" and "i \<noteq> []"
  shows "\<exists>abi arch arches.
           get_abi_tag env = Inr abi
           \<and> (if str_truthy platform then platform = Some arch else get_platform env = Inr arch)
           \<and> get_custom_platforms env arch platform = Inr (arches, log)
           \<and> parts = concat (map (\<lambda>a. map (\<lambda>p. (i @ v, a, p)) arches)
                                  ((case abi of
                                      None \<Rightarrow> []
                                    | Some a \<Rightarrow> if a \<noteq> [] then [a] else []) @ [''none'']))"
proof -
  from assms obtain abi where a: "get_abi_tag env = Inr abi"
    by (cases "get_abi_tag env") (auto simp: generic_tags_def)
  let ?arch = "case platform of
                 None \<Rightarrow> get_platform env
               | Some p \<Rightarrow> if p \<noteq> [] then Inr p else get_platform env"
  from assms a obtain arch where p: "?arch = Inr arch"
    by (cases ?arch) (auto simp: generic_tags_def Let_def)
  from assms a p obtain arches log' where g: "get_custom_platforms env arch platform = Inr (arches, log')"
    by (cases "get_custom_platforms env arch platform") (auto simp: generic_tags_def Let_def)
  from assms have r: "parts = concat (map (\<lambda>a. map (\<lambda>p. (i @ v, a, p)) arches)
                                  ((case abi of
                                      None \<Rightarrow> []
                                    | Some a \<Rightarrow> if a \<noteq> [] then [a] else []) @ [''none'']))
                     \<and> log = log'"
    unfolding generic_tags_def Let_def by (simp add: a p g)
  have "if str_truthy platform then platform = Some arch else get_platform env = Inr arch"
    using p by (cases platform) (auto split: if_splits)
  with a g r show ?thesis by blast
qed

text \<open>
  Claim C4, amended. With implementation \<^verbatim>\<open>zz\<close>, version \<^verbatim>\<open>10\<close> and no ABI override, a
  returned sequence is the de-duplicated concatenation of the generic tags and of
  the output of the compatible-tag generator (called with version \<open>(1, 0)\<close> and
  interpreter \<^verbatim>\<open>zz10\<close>). The generic tags are \<^verbatim>\<open>('zz10', abi, platform)\<close> for each ABI of
  the list made of the ABI resolved for the running interpreter, when there is one,
  followed by \<^verbatim>\<open>none\<close>, and, for each ABI, each platform of the expanded set in its
  order. When no ABI is resolved, they are exactly \<^verbatim>\<open>('zz10', 'none', platform)\<close>, one
  per platform.
\<close>

theorem get_supported_unknown_family:
  assumes "get_supported env (Some ''10'') platform (Some ''zz'') None = Inr (tags, log)"
  shows "\<exists>abi arch arches explicit.
           get_abi_tag env = Inr abi
           \<and> (if str_truthy platform then platform = Some arch else get_platform env = Inr arch)
           \<and> get_custom_platforms env arch platform = Inr (arches, log)
           \<and> (\<forall>p. platform = Some p \<longrightarrow> get_custom_platforms env p (Some p) = Inr (explicit, []))
           \<and> tags = stable_unique_tags
                      (concat (map (\<lambda>a. map (\<lambda>p. tags_Tag env ''zz10'' a p) arches)
                                   ((case abi of
                                       None \<Rightarrow> []
                                     | Some a \<Rightarrow> if a \<noteq> [] then [a] else []) @ [''none'']))
                       @ tags_compatible_tags env (Some [1, 0]) ''zz10''
                           (case platform of None \<Rightarrow> None | Some p \<Rightarrow> Some explicit))
           \<and> (abi = None \<longrightarrow>
                tags = stable_unique_tags
                         (map (\<lambda>p. tags_Tag env ''zz10'' ''none'' p) arches
                          @ tags_compatible_tags env (Some [1, 0]) ''zz10''
                              (case platform of None \<Rightarrow> None | Some p \<Rightarrow> Some explicit)))"
proof -
  from assms obtain supported
    where s: "supported_list env (Some ''10'') platform (Some ''zz'') None = Inr (supported, log)"
      and t: "tags = stable_unique_tags supported"
    by (auto simp: get_supported_def split: sum.splits)
  let ?plat = "case platform of
                 None \<Rightarrow> Inr (None, [])
               | Some p \<Rightarrow> (case get_custom_platforms env p (Some p) of
                              Inl e \<Rightarrow> Inl e
                            | Inr (arches, log) \<Rightarrow> Inr (Some arches, log))"
  from s obtain platforms log1 where pl: "?plat = Inr (platforms, log1)"
    by (cases ?plat) (auto simp: supported_list_def Let_def get_python_version_10)
  from s pl obtain parts log2
    where g: "generic_tags env (Some ''10'') platform (Some ''zz'') None = Inr (parts, log2)"
    by (cases "generic_tags env (Some ''10'') platform (Some ''zz'') None")
       (auto simp: supported_list_def Let_def get_python_version_10)
  from s have sup: "supported = map (\<lambda>(i, a, p). tags_Tag env i a p) parts
                       @ tags_compatible_tags env (Some [1, 0]) ''zz10'' platforms
                    \<and> log = log1 @ log2"
    unfolding supported_list_def Let_def
    by (simp add: get_python_version_10 pl g get_custom_interpreter_def)
  obtain explicit where ex: "platforms = (case platform of None \<Rightarrow> None | Some p \<Rightarrow> Some explicit)"
    and exr: "\<forall>p. platform = Some p \<longrightarrow> get_custom_platforms env p (Some p) = Inr (explicit, log1)"
    and l1n: "platform = None \<longrightarrow> log1 = []"
    using pl by (cases platform) (auto split: sum.splits prod.splits)
  have l1: "log1 = []"
  proof (cases platform)
    case None
    with l1n show ?thesis by simp
  next
    case (Some p)
    with exr have "get_custom_platforms env p (Some p) = Inr (explicit, log1)" by simp
    then show ?thesis by (rule get_custom_platforms_explicit_log)
  qed
  from generic_tags_result [OF g] obtain abi arch arches
    where a: "get_abi_tag env = Inr abi"
      and p: "if str_truthy platform then platform = Some arch else get_platform env = Inr arch"
      and c: "get_custom_platforms env arch platform = Inr (arches, log2)"
      and r: "parts = concat (map (\<lambda>a. map (\<lambda>p. (''zz'' @ ''10'', a, p)) arches)
                                  ((case abi of
                                      None \<Rightarrow> []
                                    | Some a \<Rightarrow> if a \<noteq> [] then [a] else []) @ [''none'']))"
    by auto
  have m: "map (\<lambda>(i, a, p). tags_Tag env i a p) parts
           = concat (map (\<lambda>a. map (\<lambda>p. tags_Tag env ''zz10'' a p) arches)
                         ((case abi of
                             None \<Rightarrow> []
                           | Some a \<Rightarrow> if a \<noteq> [] then [a] else []) @ [''none'']))"
    unfolding r by (simp add: map_concat comp_def)
  have lg: "log = log2" using sup l1 by simp
  have full: "tags = stable_unique_tags
                      (concat (map (\<lambda>a. map (\<lambda>p. tags_Tag env ''zz10'' a p) arches)
                                   ((case abi of
                                       None \<Rightarrow> []
                                     | Some a \<Rightarrow> if a \<noteq> [] then [a] else []) @ [''none'']))
                       @ tags_compatible_tags env (Some [1, 0]) ''zz10''
                           (case platform of None \<Rightarrow> None | Some p \<Rightarrow> Some explicit))"
    unfolding t using sup m ex by simp
  have none: "abi = None \<longrightarrow>
                tags = stable_unique_tags
                         (map (\<lambda>p. tags_Tag env ''zz10'' ''none'' p) arches
                          @ tags_compatible_tags env (Some [1, 0]) ''zz10''
                              (case platform of None \<Rightarrow> None | Some p \<Rightarrow> Some explicit))"
    using full by simp
  from a p c [folded lg] exr [unfolded l1] full none show ?thesis by blast
qed

lemma get_abi_tag_no_maxunicode: "get_abi_tag no_maxunicode_env = Inr None"
  by (simp add: get_abi_tag_def get_config_var_def no_maxunicode_env_def linux32_env_def
      linux_env_def)

lemma get_supported_zz_no_abi:
  "get_supported no_maxunicode_env (Some ''10'') (Some ''manylinux2010_i686'') (Some ''zz'') None =
     Inr ([(''zz10'', ''none'', ''manylinux2010_i686''),
           (''zz10'', ''none'', ''manylinux1_i686''),
           (''zz10'', ''none'', ''any'')], [])"
  by code_simp

theorem get_supported_unknown_family_witness:
  "get_supported no_maxunicode_env (Some ''10'') (Some ''manylinux2010_i686'') (Some ''zz'') None =
     Inr ([(''zz10'', ''none'', ''manylinux2010_i686''),
           (''zz10'', ''none'', ''manylinux1_i686''),
           (''zz10'', ''none'', ''any'')], [])
   \<and> (\<exists>arches explicit.
         get_custom_platforms no_maxunicode_env ''manylinux2010_i686''
           (Some ''manylinux2010_i686'') = Inr (arches, [])
         \<and> [(''zz10'', ''none'', ''manylinux2010_i686''),
             (''zz10'', ''none'', ''manylinux1_i686''),
             (''zz10'', ''none'', ''any'')]
           = stable_unique_tags
               (map (\<lambda>p. tags_Tag no_maxunicode_env ''zz10'' ''none'' p) arches
                @ tags_compatible_tags no_maxunicode_env (Some [1, 0]) ''zz10'' (Some explicit)))"
proof -
  from get_supported_unknown_family [OF get_supported_zz_no_abi]
  obtain abi arch arches explicit where
    a: "get_abi_tag no_maxunicode_env = Inr abi"
    and p: "if str_truthy (Some ''manylinux2010_i686'')
            then Some ''manylinux2010_i686'' = Some arch
            else get_platform no_maxunicode_env = Inr arch"
    and c: "get_custom_platforms no_maxunicode_env arch (Some ''manylinux2010_i686'')
            = Inr (arches, [])"
    and n: "abi = None \<longrightarrow>
            [(''zz10'', ''none'', ''manylinux2010_i686''),
             (''zz10'', ''none'', ''manylinux1_i686''),
             (''zz10'', ''none'', ''any'')]
            = stable_unique_tags
                (map (\<lambda>p. tags_Tag no_maxunicode_env ''zz10'' ''none'' p) arches
                 @ tags_compatible_tags no_maxunicode_env (Some [1, 0]) ''zz10''
                     (case Some ''manylinux2010_i686'' of
                        None \<Rightarrow> None
                      | Some p \<Rightarrow> Some explicit))"
    by blast
  from a have "abi = None" unfolding get_abi_tag_no_maxunicode by simp
  moreover from p have "arch = ''manylinux2010_i686''" by simp
  ultimately show ?thesis using c n get_supported_zz_no_abi by auto
qed

text \<open>
  Claim C4 as stated fails in an environment whose running interpreter resolves an
  ABI: \<^verbatim>\<open>_generic_tags\<close> takes \<^verbatim>\<open>abi or get_abi_tag()\<close>, the ABI of the running interpreter
  whatever the implementation override, so under CPython 3.8 the first generic tags
  carry the ABI \<^verbatim>\<open>cp38\<close>.
\<close>

theorem get_supported_unknown_family_counterexample:
  "get_supported linux_env (Some ''10'') None (Some ''zz'') None =
     Inr ([(''zz10'', ''cp38'', ''manylinux2014_x86_64''),
           (''zz10'', ''cp38'', ''manylinux2010_x86_64''),
           (''zz10'', ''cp38'', ''manylinux1_x86_64''),
           (''zz10'', ''cp38'', ''linux_x86_64''),
           (''zz10'', ''none'', ''manylinux2014_x86_64''),
           (''zz10'', ''none'', ''manylinux2010_x86_64''),
           (''zz10'', ''none'', ''manylinux1_x86_64''),
           (''zz10'', ''none'', ''linux_x86_64''),
           (''zz10'', ''none'', ''any'')],
          [GlibcCheck 2 17, GlibcCheck 2 12, GlibcCheck 2 5])
   \<and> tags_Tag linux_env ''zz10'' ''cp38'' ''linux_x86_64'' = (''zz10'', ''cp38'', ''linux_x86_64'')"
  by code_simp

end
